theory Spec2Isabelle
  imports Main
begin

section \<open>Python strings\<close>

text \<open>
  A Python \<open>str\<close> is a sequence of Unicode code points. The bot strips and matches message
  text that may hold any code point, and its own replies hold a few non-ASCII ones, so a
  string is modelled as the list of its code points. \<open>lit\<close> turns an ASCII literal into
  such a list.
\<close>

type_synonym pystr = "nat list"

definition lit :: "string \<Rightarrow> pystr" where
  "lit cs = map of_char cs"

text \<open>\<open>str.isspace\<close> for one code point: the code points Python treats as whitespace.\<close>

definition isspace :: "nat \<Rightarrow> bool" where
  "isspace c \<longleftrightarrow>
     (9 \<le> c \<and> c \<le> 13) \<or> (28 \<le> c \<and> c \<le> 32) \<or> c = 133 \<or> c = 160 \<or> c = 5760 \<or>
     (8192 \<le> c \<and> c \<le> 8202) \<or> c = 8232 \<or> c = 8233 \<or> c = 8239 \<or> c = 8287 \<or> c = 12288"

text \<open>\<open>s.strip()\<close>: leading and trailing whitespace removed.\<close>

definition strip :: "pystr \<Rightarrow> pystr" where
  "strip s = rev (dropWhile isspace (rev (dropWhile isspace s)))"

text \<open>\<open>str(n)\<close> for an integer: decimal digits, a minus sign for negative numbers.\<close>

fun str_nat :: "nat \<Rightarrow> pystr" where
  "str_nat n = (if n < 10 then [48 + n] else str_nat (n div 10) @ [48 + n mod 10])"

declare str_nat.simps [simp del]

definition str_int :: "int \<Rightarrow> pystr" where
  "str_int i = (if i < 0 then 45 # str_nat (nat (- i)) else str_nat (nat i))"

text \<open>\<open>sep.join(parts)\<close>.\<close>

fun join :: "pystr \<Rightarrow> pystr list \<Rightarrow> pystr" where
  "join sep [] = []"
| "join sep [x] = x"
| "join sep (x # y # ys) = x @ sep @ join sep (y # ys)"

section \<open>Exceptions\<close>

text \<open>
  An exception is kept as the pair the bot prints: \<open>type(e).__name__\<close> and \<open>str(e)\<close>.
\<close>

record exn =
  type_name :: pystr
  message :: pystr

definition RuntimeError :: "pystr \<Rightarrow> exn" where
  "RuntimeError msg = \<lparr>type_name = lit ''RuntimeError'', message = msg\<rparr>"

definition ValueError :: "pystr \<Rightarrow> exn" where
  "ValueError msg = \<lparr>type_name = lit ''ValueError'', message = msg\<rparr>"

definition OverflowError :: "pystr \<Rightarrow> exn" where
  "OverflowError msg = \<lparr>type_name = lit ''OverflowError'', message = msg\<rparr>"

section \<open>\<open>repr(s)\<close> and \<open>int(s)\<close> on a string\<close>

text \<open>
  \<open>repr(s)\<close>: the string between single quotes, or between double quotes when it holds a
  single quote and no double quote; a backslash before the quote in use and before a
  backslash; a backslash and \<open>t\<close>, \<open>n\<close> or \<open>r\<close> for tab, newline and carriage return; a
  backslash, \<open>x\<close> and two hexadecimal digits for the other code points up to 255 that are
  not printable (0 to 31, 127 to 160 and 173). Code
  points from 256 on are written as they are: the escapes \<open>repr\<close> has for the
  non-printable ones among them are not modelled.
\<close>

definition hex_digit :: "nat \<Rightarrow> nat" where
  "hex_digit d = (if d < 10 then 48 + d else 87 + d)"

definition repr_char :: "nat \<Rightarrow> nat \<Rightarrow> pystr" where
  "repr_char quote c =
     (if c = quote \<or> c = 92 then [92, c]
      else if c = 9 then [92, 116]
      else if c = 10 then [92, 110]
      else if c = 13 then [92, 114]
      else if c < 32 \<or> (127 \<le> c \<and> c \<le> 160) \<or> c = 173
        then [92, 120, hex_digit (c div 16), hex_digit (c mod 16)]
      else [c])"

definition repr :: "pystr \<Rightarrow> pystr" where
  "repr s =
     (let quote = (if 39 \<in> set s \<and> 34 \<notin> set s then 34 else 39)
      in [quote] @ concat (map (repr_char quote) s) @ [quote])"

text \<open>
  \<open>int(s)\<close>, as CPython 3.11 reads a string in base 10. Whitespace around the number is
  skipped, which for \<open>int\<close> is the whitespace of \<open>str.isspace\<close> without the four separators
  U+001C to U+001F. After an optional sign comes a run of decimal digits, of any script,
  in which single underscores may stand between digits. A run of more than 4300 digits is
  refused, and this is found before anything that follows the run is looked at. The
  decimal digits are those of Unicode 14, ten from each of the zeros listed.
\<close>

definition int_space :: "nat \<Rightarrow> bool" where
  "int_space c \<longleftrightarrow> isspace c \<and> \<not> (28 \<le> c \<and> c \<le> 31)"

definition decimal_zeros :: "nat list" where
  "decimal_zeros =
     [48, 1632, 1776, 1984, 2406, 2534, 2662, 2790, 2918, 3046, 3174, 3302, 3430, 3558,
      3664, 3792, 3872, 4160, 4240, 6112, 6160, 6470, 6608, 6784, 6800, 6992, 7088, 7232,
      7248, 42528, 43216, 43264, 43472, 43504, 43600, 44016, 65296, 66720, 68912, 69734,
      69872, 69942, 70096, 70384, 70736, 70864, 71248, 71360, 71472, 71904, 72016, 72784,
      73040, 73120, 92768, 92864, 93008, 120782, 120792, 120802, 120812, 120822, 123200,
      123632, 125264, 130032]"

definition decimal :: "nat \<Rightarrow> nat option" where
  "decimal c =
     (case filter (\<lambda>z. z \<le> c \<and> c \<le> z + 9) decimal_zeros of
        [] \<Rightarrow> None
      | z # _ \<Rightarrow> Some (c - z))"

definition digit_or_underscore :: "nat \<Rightarrow> bool" where
  "digit_or_underscore c \<longleftrightarrow> decimal c \<noteq> None \<or> c = 95"

fun digits_ok :: "pystr \<Rightarrow> bool" where
  "digits_ok [] = False"
| "digits_ok [c] = (decimal c \<noteq> None)"
| "digits_ok (c # d # cs) =
     (decimal c \<noteq> None \<and> (if d = 95 then digits_ok cs else digits_ok (d # cs)))"

definition digits_value :: "pystr \<Rightarrow> nat" where
  "digits_value cs =
     foldl (\<lambda>acc c. case decimal c of None \<Rightarrow> acc | Some d \<Rightarrow> 10 * acc + d) 0 cs"

definition invalid_literal :: "pystr \<Rightarrow> exn" where
  "invalid_literal s = ValueError (lit ''invalid literal for int() with base 10: '' @ repr s)"

definition int_of_str :: "pystr \<Rightarrow> exn + int" where
  "int_of_str s =
     (let t = dropWhile int_space s;
          neg = (case t of [] \<Rightarrow> False | c # cs \<Rightarrow> c = 45);
          u = (case t of [] \<Rightarrow> [] | c # cs \<Rightarrow> if c = 43 \<or> c = 45 then cs else t);
          run = takeWhile digit_or_underscore u;
          rest = dropWhile digit_or_underscore u;
          n = length (filter (\<lambda>c. c \<noteq> 95) run)
      in if \<not> digits_ok run then Inl (invalid_literal s)
         else if 4300 < n
           then Inl (ValueError
                       (lit ''Exceeds the limit (4300 digits) for integer string conversion: '' @
                        lit ''value has '' @ str_nat n @
                        lit '' digits; use sys.set_int_max_str_digits() to increase the limit''))
         else if \<not> list_all int_space rest then Inl (invalid_literal s)
         else Inr (if neg then - int (digits_value run) else int (digits_value run)))"

section \<open>The email pattern\<close>

text \<open>
  \<open>EMAIL_RE = re.compile(r"^[A-Z0-9._%+-]+@[A-Z0-9.-]+\.[A-Z]{2,}$", re.IGNORECASE)\<close>,
  used through \<open>EMAIL_RE.match\<close>. The matcher below is written in continuation style:
  each piece of the pattern consumes a prefix and hands the rest to the next piece, and a
  repetition tries every number of iterations, as the backtracking of \<open>re\<close> does.

  Under \<open>re.IGNORECASE\<close> on a \<open>str\<close> pattern the class \<open>[A-Z]\<close> matches the 52 ASCII
  letters and the four code points whose case folding lands in the range (U+0130, U+0131,
  U+017F, U+212A). \<open>$\<close> matches at the end of the string and before a newline that ends it.
\<close>

text \<open>\<open>[0-9]\<close> in a pattern is the ASCII digits only.\<close>

definition isdigit :: "nat \<Rightarrow> bool" where
  "isdigit c \<longleftrightarrow> 48 \<le> c \<and> c \<le> 57"

definition AZ_ignorecase :: "nat \<Rightarrow> bool" where
  "AZ_ignorecase c \<longleftrightarrow>
     (65 \<le> c \<and> c \<le> 90) \<or> (97 \<le> c \<and> c \<le> 122) \<or> c = 304 \<or> c = 305 \<or> c = 383 \<or> c = 8490"

definition local_class :: "nat \<Rightarrow> bool" where
  \<comment> \<open>\<open>[A-Z0-9._%+-]\<close>\<close>
  "local_class c \<longleftrightarrow>
     AZ_ignorecase c \<or> isdigit c \<or> c = 46 \<or> c = 95 \<or> c = 37 \<or> c = 43 \<or> c = 45"

definition domain_class :: "nat \<Rightarrow> bool" where
  \<comment> \<open>\<open>[A-Z0-9.-]\<close>\<close>
  "domain_class c \<longleftrightarrow> AZ_ignorecase c \<or> isdigit c \<or> c = 46 \<or> c = 45"

fun one :: "(nat \<Rightarrow> bool) \<Rightarrow> (pystr \<Rightarrow> bool) \<Rightarrow> pystr \<Rightarrow> bool" where
  "one P k [] = False"
| "one P k (c # cs) = (P c \<and> k cs)"

fun many1 :: "(nat \<Rightarrow> bool) \<Rightarrow> (pystr \<Rightarrow> bool) \<Rightarrow> pystr \<Rightarrow> bool" where
  "many1 P k [] = False"
| "many1 P k (c # cs) = (P c \<and> (many1 P k cs \<or> k cs))"

definition end_of_string :: "pystr \<Rightarrow> bool" where
  \<comment> \<open>\<open>$\<close>\<close>
  "end_of_string s \<longleftrightarrow> s = [] \<or> s = [10]"

definition EMAIL_RE_match :: "pystr \<Rightarrow> bool" where
  "EMAIL_RE_match s =
     many1 local_class
       (one (\<lambda>c. c = 64)
         (many1 domain_class
           (one (\<lambda>c. c = 46)
             (one AZ_ignorecase (many1 AZ_ignorecase end_of_string))))) s"

section \<open>Clock values\<close>

text \<open>
  A reading of the clock is the POSIX time in whole microseconds, which is the resolution
  of \<open>datetime\<close>. \<open>int(x)\<close> on the float number of seconds truncates towards zero. The
  rounding of the float itself is not modelled: it can only change the whole seconds for
  clock values from 2^34 seconds on (the year 2514), where a float no longer separates
  microseconds.
\<close>

definition trunc_seconds :: "int \<Rightarrow> int" where
  "trunc_seconds us = (if 0 \<le> us then us div 1000000 else - ((- us) div 1000000))"

text \<open>\<open>datetime.min\<close> and \<open>datetime.max\<close> in UTC, in microseconds since the epoch.\<close>

definition datetime_min :: int where
  "datetime_min = - 62135596800000000"

definition datetime_max :: int where
  "datetime_max = 253402300799999999"

text \<open>
  \<open>dt + timedelta(minutes=m)\<close>. Building the \<open>timedelta\<close> raises \<open>OverflowError\<close> when
  its number of days does not fit a C \<open>int\<close> (32 bits) or is beyond 999999999 either way;
  adding it raises \<open>OverflowError\<close> when the sum leaves the range of \<open>datetime\<close>.
\<close>

definition add_minutes :: "int \<Rightarrow> int \<Rightarrow> exn + int" where
  "add_minutes dt m =
     (let days = m div 1440;
          r = dt + m * 60000000
      in if days < - 2147483648 \<or> 2147483647 < days
           then Inl (OverflowError (lit ''Python int too large to convert to C int''))
         else if days < - 999999999 \<or> 999999999 < days
           then Inl (OverflowError
                       (lit ''days='' @ str_int days @ lit ''; must have magnitude <= 999999999''))
         else if datetime_min \<le> r \<and> r \<le> datetime_max then Inr r
         else Inl (OverflowError (lit ''date value out of range'')))"

text \<open>
  \<open>dt.isoformat(timespec="seconds")\<close> for a UTC datetime:
  \<open>YYYY-MM-DDTHH:MM:SS+00:00\<close>. The calendar date comes from the day number by the usual
  proleptic Gregorian computation on 400-year eras.
\<close>

definition pad :: "nat \<Rightarrow> nat \<Rightarrow> pystr" where
  "pad w n = replicate (w - length (str_nat n)) 48 @ str_nat n"

definition civil_from_days :: "int \<Rightarrow> int \<times> int \<times> int" where
  "civil_from_days z =
     (let z' = z + 719468;
          era = z' div 146097;
          doe = z' - era * 146097;
          yoe = (doe - doe div 1460 + doe div 36524 - doe div 146096) div 365;
          doy = doe - (365 * yoe + yoe div 4 - yoe div 100);
          mp = (5 * doy + 2) div 153;
          d = doy - (153 * mp + 2) div 5 + 1;
          m = (if mp < 10 then mp + 3 else mp - 9);
          y = yoe + era * 400 + (if m \<le> 2 then 1 else 0)
      in (y, m, d))"

definition isoformat_seconds :: "int \<Rightarrow> pystr" where
  "isoformat_seconds us =
     (let s = us div 1000000;
          sod = s mod 86400
      in case civil_from_days (s div 86400) of (y, m, d) \<Rightarrow>
           pad 4 (nat y) @ [45] @ pad 2 (nat m) @ [45] @ pad 2 (nat d) @ [84] @
           pad 2 (nat (sod div 3600)) @ [58] @ pad 2 (nat (sod mod 3600 div 60)) @ [58] @
           pad 2 (nat (sod mod 60)) @ lit ''+00:00'')"

section \<open>The worksheet\<close>

text \<open>
  The sheet is the grid the Sheets service holds: a list of rows, each a list of cell
  strings, an empty string for an empty cell. The three \<open>gspread\<close> calls the bot makes:
  \<^item> \<open>ws.row_values(n)\<close>: the cells of row \<open>n\<close> (counted from 1) without the trailing
    empty ones, \<open>[]\<close> for a row that is empty or beyond the data;
  \<^item> \<open>ws.col_values(c)\<close>: the cells of column \<open>c\<close> from row 1 down, without the trailing
    empty ones;
  \<^item> \<open>ws.append_row(values)\<close>: the new row goes directly below the last row that holds
    data.
  The service is modelled as a store that answers every call; its transport and
  authentication failures are outside the model.
\<close>

type_synonym row = "pystr list"
type_synonym worksheet = "row list"

definition trim_trailing :: "('a \<Rightarrow> bool) \<Rightarrow> 'a list \<Rightarrow> 'a list" where
  "trim_trailing P xs = rev (dropWhile P (rev xs))"

definition cell :: "row \<Rightarrow> nat \<Rightarrow> pystr" where
  "cell r c = (if 1 \<le> c \<and> c \<le> length r then r ! (c - 1) else [])"

definition blank_row :: "row \<Rightarrow> bool" where
  "blank_row r \<longleftrightarrow> list_all (\<lambda>x. x = []) r"

definition row_values :: "worksheet \<Rightarrow> nat \<Rightarrow> row" where
  "row_values ws n =
     (if 1 \<le> n \<and> n \<le> length ws then trim_trailing (\<lambda>x. x = []) (ws ! (n - 1)) else [])"

definition col_values :: "worksheet \<Rightarrow> nat \<Rightarrow> pystr list" where
  "col_values ws c = trim_trailing (\<lambda>x. x = []) (map (\<lambda>r. cell r c) ws)"

definition append_row :: "worksheet \<Rightarrow> row \<Rightarrow> worksheet" where
  "append_row ws vals = trim_trailing blank_row ws @ [vals]"

section \<open>Effects\<close>

text \<open>
  Everything a handler does to the outside is written into a log, in order: replies to the
  user, invite requests to the Bot API, and the calls on the sheet. The world a handler
  runs in is the sheet together with that log. Sending a reply is taken to succeed.
\<close>

datatype value_input_option = RAW | USER_ENTERED

record invite_request =
  chat_id :: int
  member_limit :: int
  expire_date :: int
  creates_join_request :: bool
  name :: pystr

datatype effect =
    Reply pystr
  | CreateInvite invite_request
  | OpenSheet
  | RowValues nat
  | ColValues nat
  | AppendRow row value_input_option

record world =
  sheet :: worksheet
  effects :: "effect list"

definition emit :: "effect \<Rightarrow> world \<Rightarrow> world" where
  "emit e w = w\<lparr>effects := effects w @ [e]\<rparr>"

definition reply_text :: "pystr \<Rightarrow> world \<Rightarrow> world" where
  "reply_text msg w = emit (Reply msg) w"

definition ws_row_values :: "nat \<Rightarrow> world \<Rightarrow> row \<times> world" where
  "ws_row_values n w = (row_values (sheet w) n, emit (RowValues n) w)"

definition ws_col_values :: "nat \<Rightarrow> world \<Rightarrow> pystr list \<times> world" where
  "ws_col_values c w = (col_values (sheet w) c, emit (ColValues c) w)"

text \<open>
  \<open>RAW\<close> stores the values as they are, and it is also the default of \<open>append_row\<close>; the
  bot never asks for \<open>USER_ENTERED\<close>, under which the service would parse them.
\<close>

definition ws_append_row :: "row \<Rightarrow> value_input_option \<Rightarrow> world \<Rightarrow> world" where
  "ws_append_row vals opt w = emit (AppendRow vals opt) (w\<lparr>sheet := append_row (sheet w) vals\<rparr>)"

section \<open>Module constants\<close>

definition ASK_EMAIL :: int where
  "ASK_EMAIL = 1"

text \<open>\<open>ConversationHandler.END\<close>.\<close>

definition END :: int where
  "END = - 1"

definition HEADER :: row where
  "HEADER = [lit ''timestamp_utc'', lit ''telegram_user_id'', lit ''telegram_username'',
             lit ''telegram_full_name'', lit ''patreon_email'', lit ''invite_link_created'']"

text \<open>
  The process environment after \<open>load_dotenv()\<close>, and \<open>os.getenv(name, default)\<close> on it.
\<close>

type_synonym environ = "pystr \<rightharpoonup> pystr"

definition getenv :: "environ \<Rightarrow> pystr \<Rightarrow> pystr \<Rightarrow> pystr" where
  "getenv e k d = (case e k of None \<Rightarrow> d | Some v \<Rightarrow> v)"

text \<open>The module-level settings, as the import of the module computes them.\<close>

record globals =
  BOT_TOKEN :: pystr
  GROUP_CHAT_ID :: pystr
  SHEET_ID :: pystr
  GOOGLE_SERVICE_ACCOUNT_JSON :: pystr
  INVITE_EXPIRE_MINUTES :: int

definition load_globals :: "environ \<Rightarrow> exn + globals" where
  "load_globals e =
     (case int_of_str (getenv e (lit ''INVITE_EXPIRE_MINUTES'') (lit ''10'')) of
        Inl err \<Rightarrow> Inl err
      | Inr minutes \<Rightarrow>
          Inr \<lparr>BOT_TOKEN = strip (getenv e (lit ''BOT_TOKEN'') []),
               GROUP_CHAT_ID = strip (getenv e (lit ''GROUP_CHAT_ID'') []),
               SHEET_ID = strip (getenv e (lit ''SHEET_ID'') []),
               GOOGLE_SERVICE_ACCOUNT_JSON =
                 strip (getenv e (lit ''GOOGLE_SERVICE_ACCOUNT_JSON'') (lit ''service-account.json'')),
               INVITE_EXPIRE_MINUTES = minutes\<rparr>)"

section \<open>Startup\<close>

definition must_env :: "pystr \<Rightarrow> pystr \<Rightarrow> exn + unit" where
  "must_env nm val = (if val = [] then Inl (RuntimeError (lit ''Missing env var: '' @ nm)) else Inr ())"

text \<open>
  \<open>main\<close>: the three checks in order, then the application is built and polls. \<open>Inr ()\<close>
  stands for reaching \<open>app.run_polling()\<close>.
\<close>

definition main :: "globals \<Rightarrow> exn + unit" where
  "main g =
     (case must_env (lit ''BOT_TOKEN'') (BOT_TOKEN g) of
        Inl err \<Rightarrow> Inl err
      | Inr _ \<Rightarrow>
          (case must_env (lit ''GROUP_CHAT_ID'') (GROUP_CHAT_ID g) of
             Inl err \<Rightarrow> Inl err
           | Inr _ \<Rightarrow>
               (case must_env (lit ''SHEET_ID'') (SHEET_ID g) of
                  Inl err \<Rightarrow> Inl err
                | Inr _ \<Rightarrow> Inr ())))"

section \<open>The sheet operations of the bot\<close>

text \<open>\<open>get_ws\<close>: open the sheet, write the header when the first row is empty.\<close>

definition get_ws :: "world \<Rightarrow> world" where
  "get_ws w =
     (case ws_row_values 1 (emit OpenSheet w) of
        (first_row, w1) \<Rightarrow> if first_row = [] then ws_append_row HEADER RAW w1 else w1)"

text \<open>\<open>headers.index(x)\<close>: the first position of \<open>x\<close>, \<open>None\<close> for \<open>ValueError\<close>.\<close>

fun index :: "'a list \<Rightarrow> 'a \<Rightarrow> nat option" where
  "index [] x = None"
| "index (y # ys) x = (if y = x then Some 0 else map_option Suc (index ys x))"

definition user_already_submitted :: "int \<Rightarrow> world \<Rightarrow> bool \<times> world" where
  "user_already_submitted telegram_user_id w =
     (case ws_row_values 1 w of
        (headers, w1) \<Rightarrow>
          (let col_idx = (case index headers (lit ''telegram_user_id'') of
                            Some i \<Rightarrow> i + 1
                          | None \<Rightarrow> 2)
           in case ws_col_values col_idx w1 of
                (col, w2) \<Rightarrow> (str_int telegram_user_id \<in> set (drop 1 col), w2)))"

text \<open>The Telegram user: \<open>first_name\<close> is always there, the other two may be \<open>None\<close>.\<close>

record user =
  user_id :: int
  first_name :: pystr
  last_name :: "pystr option"
  username :: "pystr option"

text \<open>\<open>x or ""\<close> for an optional string.\<close>

definition or_empty :: "pystr option \<Rightarrow> pystr" where
  "or_empty x = (case x of None \<Rightarrow> [] | Some v \<Rightarrow> v)"

definition full_name :: "user \<Rightarrow> pystr" where
  "full_name usr =
     join (lit '' '') (filter (\<lambda>x. x \<noteq> []) [first_name usr, or_empty (last_name usr)])"

definition append_submission :: "int \<Rightarrow> user \<Rightarrow> pystr \<Rightarrow> pystr \<Rightarrow> world \<Rightarrow> world" where
  "append_submission now usr email invite_link w =
     ws_append_row
       [isoformat_seconds now, str_int (user_id usr), or_empty (username usr), full_name usr,
        email, invite_link]
       RAW w"

section \<open>The handlers\<close>

text \<open>
  What a handler reads from the update: the type of the chat, the text of the message
  (\<open>None\<close> when the message has none) and the sender.
\<close>

record tg_update =
  chat_type :: pystr
  message_text :: "pystr option"
  effective_user :: user

text \<open>
  What the outside answers during one run of \<open>handle_email\<close>: the three readings of the
  clock (\<open>datetime.now\<close> for the expiry, \<open>time.time()\<close> for the name of the link,
  \<open>datetime.now\<close> for the row) and the answer of the Bot API to the invite request, the
  link or the exception it raises.
\<close>

record outside =
  now_expire :: int
  time_name :: int
  now_append :: int
  create_chat_invite_link :: "invite_request \<Rightarrow> exn + pystr"

text \<open>The replies. Code points 8217, 8212 and 8226 are the typographic apostrophe, the dash
  and the bullet of the source text; 10 is the newline and 39 the plain apostrophe.\<close>

definition dm_only_text :: pystr where
  "dm_only_text = lit ''Please DM me to get access.''"

definition ask_email_text :: pystr where
  "ask_email_text =
     lit ''To get access, reply with the email address you use for Patreon.'' @ [10, 10] @
     lit ''Note: you can only submit once.''"

definition invalid_email_text :: pystr where
  "invalid_email_text =
     lit ''That doesn'' @ [8217] @
     lit ''t look like a valid email. Please try again (example: name@gmail.com).''"

definition already_submitted_text :: pystr where
  "already_submitted_text =
     lit ''You'' @ [8217] @ lit ''ve already submitted your details, so I can'' @ [8217] @
     lit ''t accept another entry.'' @ [10] @ lit ''If you need help, message the admin.''"

definition invite_failed_text :: "exn \<Rightarrow> pystr" where
  "invite_failed_text e =
     lit ''I couldn'' @ [39] @ lit ''t create an invite link. Common causes:'' @ [10] @
     [8226] @ lit '' bot is not an admin in the group'' @ [10] @
     [8226] @ lit '' bot lacks permission to manage invite links'' @ [10] @
     [8226] @ lit '' GROUP_CHAT_ID is wrong (supergroups often start with -100...)'' @ [10, 10] @
     lit ''Error: '' @ type_name e @ lit '': '' @ message e"

definition invite_text :: "pystr \<Rightarrow> pystr" where
  "invite_text invite_link =
     lit ''Thanks '' @ [8212] @ lit '' here'' @ [8217] @
     lit ''s your one-time join link (single use, expires soon):'' @ [10, 10] @ invite_link"

definition cancelled_text :: pystr where
  "cancelled_text = lit ''Cancelled. You can restart with /start.''"

definition start :: "tg_update \<Rightarrow> world \<Rightarrow> int \<times> world" where
  "start upd w =
     (if chat_type upd \<noteq> lit ''private'' then (END, reply_text dm_only_text w)
      else (ASK_EMAIL, reply_text ask_email_text w))"

definition cancel :: "tg_update \<Rightarrow> world \<Rightarrow> int \<times> world" where
  "cancel upd w = (END, reply_text cancelled_text w)"

text \<open>
  The body of the \<open>try\<close> in \<open>handle_email\<close>: the arguments are evaluated in order, so
  \<open>int(GROUP_CHAT_ID)\<close> can raise before any request is sent; then the request goes out.
\<close>

definition request_invite :: "globals \<Rightarrow> outside \<Rightarrow> user \<Rightarrow> int \<Rightarrow> world \<Rightarrow> (exn + pystr) \<times> world" where
  "request_invite g out tg_user expire_ts w =
     (case int_of_str (GROUP_CHAT_ID g) of
        Inl err \<Rightarrow> (Inl err, w)
      | Inr cid \<Rightarrow>
          (let req = \<lparr>chat_id = cid, member_limit = 1, expire_date = expire_ts,
                      creates_join_request = False,
                      name = lit ''patreon_gate_'' @ str_int (user_id tg_user) @ lit ''_'' @
                             str_int (trunc_seconds (time_name out))\<rparr>
           in (create_chat_invite_link out req, emit (CreateInvite req) w)))"

text \<open>
  \<open>handle_email\<close>. The result is the next state of the conversation, or the exception
  that leaves the handler (only the date arithmetic before the \<open>try\<close> can raise one),
  together with the world after the run.
\<close>

definition handle_email :: "globals \<Rightarrow> outside \<Rightarrow> tg_update \<Rightarrow> world \<Rightarrow> (exn + int) \<times> world" where
  "handle_email g out upd w =
     (if chat_type upd \<noteq> lit ''private'' then (Inr END, w)
      else
        (let email = strip (or_empty (message_text upd))
         in if \<not> EMAIL_RE_match email then (Inr ASK_EMAIL, reply_text invalid_email_text w)
            else
              (let tg_user = effective_user upd
               in case user_already_submitted (user_id tg_user) (get_ws w) of
                    (True, w2) \<Rightarrow> (Inr END, reply_text already_submitted_text w2)
                  | (False, w2) \<Rightarrow>
                      (case add_minutes (now_expire out) (INVITE_EXPIRE_MINUTES g) of
                         Inl err \<Rightarrow> (Inl err, w2)
                       | Inr expire_dt \<Rightarrow>
                           (case request_invite g out tg_user (trunc_seconds expire_dt) w2 of
                              (Inl e, w3) \<Rightarrow> (Inr END, reply_text (invite_failed_text e) w3)
                            | (Inr invite_link, w3) \<Rightarrow>
                                (Inr END,
                                 reply_text (invite_text invite_link)
                                   (append_submission (now_append out) tg_user email invite_link w3)))))))"

section \<open>Notions used in the properties\<close>

text \<open>The column the duplicate check reads: the position of \<open>telegram_user_id\<close> in the
  first row, column 2 when the first row does not name it.\<close>

definition id_column :: "worksheet \<Rightarrow> nat" where
  "id_column ws =
     (case index (row_values ws 1) (lit ''telegram_user_id'') of Some i \<Rightarrow> i + 1 | None \<Rightarrow> 2)"

text \<open>The cells of column \<open>c\<close> in the rows below the first one, as the grid holds them.\<close>

definition column_below_header :: "worksheet \<Rightarrow> nat \<Rightarrow> pystr list" where
  "column_below_header ws c = map (\<lambda>r. cell r c) (drop 1 ws)"

text \<open>What \<open>get_ws\<close> and the duplicate check after it add to the log, on a given sheet.\<close>

definition opening_effects :: "worksheet \<Rightarrow> effect list" where
  "opening_effects ws =
     (if row_values ws 1 = []
      then [OpenSheet, RowValues 1, AppendRow HEADER RAW, RowValues 1,
            ColValues (id_column (append_row ws HEADER))]
      else [OpenSheet, RowValues 1, RowValues 1, ColValues (id_column ws)])"

text \<open>What one run of \<open>handle_email\<close> adds to the log.\<close>

definition new_effects :: "globals \<Rightarrow> outside \<Rightarrow> tg_update \<Rightarrow> world \<Rightarrow> effect list" where
  "new_effects g out upd w = drop (length (effects w)) (effects (snd (handle_email g out upd w)))"

text \<open>The row \<open>append_submission\<close> builds.\<close>

definition submission_row :: "int \<Rightarrow> user \<Rightarrow> pystr \<Rightarrow> pystr \<Rightarrow> row" where
  "submission_row now usr email invite_link =
     [isoformat_seconds now, str_int (user_id usr), or_empty (username usr), full_name usr,
      email, invite_link]"

text \<open>The request \<open>handle_email\<close> sends for a user, given the parsed chat id.\<close>

definition invite_request_for :: "globals \<Rightarrow> outside \<Rightarrow> user \<Rightarrow> int \<Rightarrow> invite_request" where
  "invite_request_for g out usr cid =
     \<lparr>chat_id = cid, member_limit = 1,
      expire_date = trunc_seconds (now_expire out + INVITE_EXPIRE_MINUTES g * 60000000),
      creates_join_request = False,
      name = lit ''patreon_gate_'' @ str_int (user_id usr) @ lit ''_'' @
             str_int (trunc_seconds (time_name out))\<rparr>"

section \<open>Example data\<close>

definition ann :: user where
  "ann = \<lparr>user_id = 42, first_name = lit ''Ann'', last_name = Some (lit ''Lee''), username = None\<rparr>"

definition settings :: globals where
  "settings = \<lparr>BOT_TOKEN = lit ''token'', GROUP_CHAT_ID = lit ''-1001'', SHEET_ID = lit ''sheet'',
               GOOGLE_SERVICE_ACCOUNT_JSON = lit ''service-account.json'',
               INVITE_EXPIRE_MINUTES = 10\<rparr>"

definition api_grants :: "invite_request \<Rightarrow> exn + pystr" where
  "api_grants req = Inr (lit ''https://t.me/+abc'')"

definition api_refuses :: "invite_request \<Rightarrow> exn + pystr" where
  "api_refuses req =
     Inl \<lparr>type_name = lit ''BadRequest'', message = lit ''Not enough rights''\<rparr>"

definition granting :: outside where
  "granting = \<lparr>now_expire = 1700000000999999, time_name = 1700000001000001,
               now_append = 1700000002000000, create_chat_invite_link = api_grants\<rparr>"

definition refusing :: outside where
  "refusing = \<lparr>now_expire = 1700000000999999, time_name = 1700000001000001,
               now_append = 1700000002000000, create_chat_invite_link = api_refuses\<rparr>"

definition dm :: "pystr \<Rightarrow> tg_update" where
  "dm txt = \<lparr>chat_type = lit ''private'', message_text = Some txt, effective_user = ann\<rparr>"

definition group_message :: "pystr \<Rightarrow> tg_update" where
  "group_message txt = \<lparr>chat_type = lit ''group'', message_text = Some txt, effective_user = ann\<rparr>"

definition fresh :: world where
  "fresh = \<lparr>sheet = [], effects = []\<rparr>"

definition opened :: world where
  "opened = \<lparr>sheet = [HEADER], effects = []\<rparr>"

definition defaults :: globals where
  "defaults = \<lparr>BOT_TOKEN = [], GROUP_CHAT_ID = [], SHEET_ID = [],
               GOOGLE_SERVICE_ACCOUNT_JSON = lit ''service-account.json'',
               INVITE_EXPIRE_MINUTES = 10\<rparr>"

definition ann_row :: row where
  "ann_row = [lit ''2023-11-14T22:13:22+00:00'', lit ''42'', [], lit ''Ann Lee'',
              lit ''name@example.com'', lit ''https://t.me/+abc'']"

definition used :: world where
  "used = \<lparr>sheet = [HEADER, ann_row], effects = []\<rparr>"

definition foreign_header :: world where
  "foreign_header = \<lparr>sheet = [[lit ''when'', lit ''who''], [lit ''monday'', lit ''42'']],
                      effects = []\<rparr>"

definition recorded_below_note :: world where
  "recorded_below_note = \<lparr>sheet = [[], [lit ''members''], HEADER, ann_row], effects = []\<rparr>"

definition note_above :: world where
  "note_above = \<lparr>sheet = [[], [lit ''members'']], effects = []\<rparr>"

section \<open>Facts about strings and lists\<close>

lemma str_nat_nonempty: "str_nat n \<noteq> []"
  by (subst str_nat.simps) simp

lemma str_int_nonempty: "str_int i \<noteq> []"
  by (simp add: str_int_def str_nat_nonempty)

lemma trim_trailing_decomp:
  "\<exists>rest. xs = trim_trailing P xs @ rest \<and> (\<forall>x\<in>set rest. P x)"
proof -
  have "rev xs = takeWhile P (rev xs) @ dropWhile P (rev xs)"
    by simp
  then have "xs = rev (dropWhile P (rev xs)) @ rev (takeWhile P (rev xs))"
    by (metis rev_append rev_rev_ident)
  moreover have "\<forall>x\<in>set (rev (takeWhile P (rev xs))). P x"
    by (auto dest: set_takeWhileD)
  ultimately show ?thesis
    unfolding trim_trailing_def by blast
qed

lemma trim_trailing_all: "list_all P xs \<Longrightarrow> trim_trailing P xs = []"
  by (simp add: trim_trailing_def list_all_iff)

lemma trim_trailing_last: "xs \<noteq> [] \<Longrightarrow> \<not> P (last xs) \<Longrightarrow> trim_trailing P xs = xs"
  by (cases xs rule: rev_cases) (simp_all add: trim_trailing_def)

lemma trim_trailing_Nil_iff: "trim_trailing P xs = [] \<longleftrightarrow> list_all P xs"
  by (simp add: trim_trailing_def list_all_iff dropWhile_eq_Nil_conv)

lemma mem_drop_trim_trailing:
  assumes "v \<noteq> []"
  shows "v \<in> set (drop n (trim_trailing (\<lambda>x. x = []) xs)) \<longleftrightarrow> v \<in> set (drop n xs)"
proof -
  obtain rest where xs: "xs = trim_trailing (\<lambda>x. x = []) xs @ rest"
    and rest: "\<forall>x\<in>set rest. x = []"
    using trim_trailing_decomp [of xs "\<lambda>x. x = []"] by blast
  have "v \<notin> set (drop k rest)" for k
    using rest assms by (auto dest: in_set_dropD)
  then have "v \<in> set (drop n (trim_trailing (\<lambda>x. x = []) xs @ rest))
      \<longleftrightarrow> v \<in> set (drop n (trim_trailing (\<lambda>x. x = []) xs))"
    by simp
  with xs show ?thesis by simp
qed

lemma index_None_iff: "index xs x = None \<longleftrightarrow> x \<notin> set xs"
  by (induction xs) auto

lemma index_Some_iff:
  "index xs x = Some i \<longleftrightarrow> i < length xs \<and> xs ! i = x \<and> x \<notin> set (take i xs)"
proof (induction xs arbitrary: i)
  case Nil
  then show ?case by simp
next
  case (Cons y ys)
  show ?case
  proof (cases "y = x")
    case True
    then show ?thesis by (cases i) auto
  next
    case False
    then show ?thesis using Cons.IH by (cases i) auto
  qed
qed

section \<open>Facts about the sheet operations\<close>

lemma sheet_emit: "sheet (emit e w) = sheet w"
  by (simp add: emit_def)

lemma effects_emit: "effects (emit e w) = effects w @ [e]"
  by (simp add: emit_def)

lemma get_ws_eq:
  "get_ws w =
     (if row_values (sheet w) 1 = []
      then \<lparr>sheet = append_row (sheet w) HEADER,
            effects = effects w @ [OpenSheet, RowValues 1, AppendRow HEADER RAW]\<rparr>
      else \<lparr>sheet = sheet w, effects = effects w @ [OpenSheet, RowValues 1]\<rparr>)"
  by (simp add: get_ws_def ws_row_values_def ws_append_row_def emit_def)

lemma sheet_get_ws_nonempty: "row_values (sheet w) 1 \<noteq> [] \<Longrightarrow> sheet (get_ws w) = sheet w"
  by (simp add: get_ws_eq)

lemma user_already_submitted_eq:
  "user_already_submitted uid w =
     (str_int uid \<in> set (drop 1 (col_values (sheet w) (id_column (sheet w)))),
      \<lparr>sheet = sheet w, effects = effects w @ [RowValues 1, ColValues (id_column (sheet w))]\<rparr>)"
  by (simp add: user_already_submitted_def ws_row_values_def ws_col_values_def emit_def
      id_column_def Let_def split: option.split)

lemma recorded_iff_cells:
  "str_int uid \<in> set (drop 1 (col_values ws c)) \<longleftrightarrow> str_int uid \<in> set (column_below_header ws c)"
  by (simp add: col_values_def column_below_header_def mem_drop_trim_trailing
      str_int_nonempty drop_map)

lemma recorded_iff_cells_Suc:
  "str_int uid \<in> set (drop (Suc 0) (col_values ws c)) \<longleftrightarrow>
   str_int uid \<in> set (column_below_header ws c)"
  using recorded_iff_cells [of uid ws c] by simp

section \<open>The language of the email pattern\<close>

lemma one_iff: "one P k s \<longleftrightarrow> (\<exists>c cs. s = c # cs \<and> P c \<and> k cs)"
  by (cases s) auto

lemma many1_iff:
  "many1 P k s \<longleftrightarrow> (\<exists>xs ys. s = xs @ ys \<and> xs \<noteq> [] \<and> list_all P xs \<and> k ys)"
proof (induction s)
  case Nil
  then show ?case by simp
next
  case (Cons c cs)
  show ?case
  proof
    assume "many1 P k (c # cs)"
    then have c: "P c" and more: "many1 P k cs \<or> k cs"
      by simp_all
    from more show "\<exists>xs ys. c # cs = xs @ ys \<and> xs \<noteq> [] \<and> list_all P xs \<and> k ys"
    proof
      assume "many1 P k cs"
      then obtain xs ys where "cs = xs @ ys" "list_all P xs" "k ys"
        using Cons.IH by blast
      with c have "c # cs = (c # xs) @ ys \<and> c # xs \<noteq> [] \<and> list_all P (c # xs) \<and> k ys"
        by simp
      then show ?thesis by blast
    next
      assume "k cs"
      with c have "c # cs = [c] @ cs \<and> [c] \<noteq> [] \<and> list_all P [c] \<and> k cs"
        by simp
      then show ?thesis by blast
    qed
  next
    assume "\<exists>xs ys. c # cs = xs @ ys \<and> xs \<noteq> [] \<and> list_all P xs \<and> k ys"
    then obtain xs ys where eq: "c # cs = xs @ ys" and ne: "xs \<noteq> []"
      and all: "list_all P xs" and k: "k ys"
      by blast
    from ne obtain x xs' where xs: "xs = x # xs'"
      by (cases xs) auto
    with eq all have c: "P c" and cs: "cs = xs' @ ys" and all': "list_all P xs'"
      by simp_all
    show "many1 P k (c # cs)"
    proof (cases "xs' = []")
      case True
      with c cs k show ?thesis by simp
    next
      case False
      with cs all' k have "many1 P k cs"
        using Cons.IH by blast
      with c show ?thesis by simp
    qed
  qed
qed

text \<open>
  The matcher accepts exactly the strings of the pattern: a non-empty local part over
  \<open>[A-Z0-9._%+-]\<close>, an \<open>@\<close>, a non-empty run over \<open>[A-Z0-9.-]\<close>, a dot and at least two
  letters, with case ignored, and after that nothing or one final newline.
\<close>

lemma EMAIL_RE_match_iff:
  "EMAIL_RE_match s \<longleftrightarrow>
     (\<exists>l d t e. s = l @ [64] @ d @ [46] @ t @ e \<and>
        l \<noteq> [] \<and> list_all local_class l \<and>
        d \<noteq> [] \<and> list_all domain_class d \<and>
        2 \<le> length t \<and> list_all AZ_ignorecase t \<and>
        (e = [] \<or> e = [10]))"
proof
  assume "EMAIL_RE_match s"
  then obtain l r1 where s: "s = l @ r1" and l: "l \<noteq> []" "list_all local_class l"
    and r1: "one (\<lambda>c. c = 64)
               (many1 domain_class
                 (one (\<lambda>c. c = 46) (one AZ_ignorecase (many1 AZ_ignorecase end_of_string)))) r1"
    unfolding EMAIL_RE_match_def many1_iff [of local_class] by blast
  from r1 obtain r2 where r1_eq: "r1 = 64 # r2"
    and r2: "many1 domain_class
               (one (\<lambda>c. c = 46) (one AZ_ignorecase (many1 AZ_ignorecase end_of_string))) r2"
    unfolding one_iff [of "\<lambda>c. c = 64"] by blast
  from r2 obtain d r3 where r2_eq: "r2 = d @ r3" and d: "d \<noteq> []" "list_all domain_class d"
    and r3: "one (\<lambda>c. c = 46) (one AZ_ignorecase (many1 AZ_ignorecase end_of_string)) r3"
    unfolding many1_iff [of domain_class] by blast
  from r3 obtain r4 where r3_eq: "r3 = 46 # r4"
    and r4: "one AZ_ignorecase (many1 AZ_ignorecase end_of_string) r4"
    unfolding one_iff [of "\<lambda>c. c = 46"] by blast
  from r4 obtain c r5 where r4_eq: "r4 = c # r5" and c: "AZ_ignorecase c"
    and r5: "many1 AZ_ignorecase end_of_string r5"
    unfolding one_iff [of AZ_ignorecase] by blast
  from r5 obtain t' e where r5_eq: "r5 = t' @ e" and t': "t' \<noteq> []" "list_all AZ_ignorecase t'"
    and e: "end_of_string e"
    unfolding many1_iff [of AZ_ignorecase] by blast
  have "s = l @ [64] @ d @ [46] @ (c # t') @ e"
    by (simp add: s r1_eq r2_eq r3_eq r4_eq r5_eq)
  moreover have "2 \<le> length (c # t')"
    using t'(1) by (cases t') simp_all
  moreover have "list_all AZ_ignorecase (c # t')"
    using c t'(2) by simp
  moreover have "e = [] \<or> e = [10]"
    using e by (simp add: end_of_string_def)
  ultimately show "\<exists>l d t e. s = l @ [64] @ d @ [46] @ t @ e \<and>
        l \<noteq> [] \<and> list_all local_class l \<and>
        d \<noteq> [] \<and> list_all domain_class d \<and>
        2 \<le> length t \<and> list_all AZ_ignorecase t \<and>
        (e = [] \<or> e = [10])"
    using l d by blast
next
  assume "\<exists>l d t e. s = l @ [64] @ d @ [46] @ t @ e \<and>
        l \<noteq> [] \<and> list_all local_class l \<and>
        d \<noteq> [] \<and> list_all domain_class d \<and>
        2 \<le> length t \<and> list_all AZ_ignorecase t \<and>
        (e = [] \<or> e = [10])"
  then obtain l d t e where s: "s = l @ [64] @ d @ [46] @ t @ e"
    and l: "l \<noteq> []" "list_all local_class l"
    and d: "d \<noteq> []" "list_all domain_class d"
    and t: "2 \<le> length t" "list_all AZ_ignorecase t"
    and e: "e = [] \<or> e = [10]"
    by blast
  from t(1) obtain c t' where t_eq: "t = c # t'" and t': "t' \<noteq> []"
    by (cases t; cases "tl t") auto
  have "end_of_string e"
    using e by (simp add: end_of_string_def)
  with t' t(2) t_eq have "many1 AZ_ignorecase end_of_string (t' @ e)"
    unfolding many1_iff [of AZ_ignorecase] by auto
  with t(2) t_eq have "one AZ_ignorecase (many1 AZ_ignorecase end_of_string) (t @ e)"
    by simp
  then have "one (\<lambda>c. c = 46) (one AZ_ignorecase (many1 AZ_ignorecase end_of_string))
      ([46] @ t @ e)"
    by simp
  with d have "many1 domain_class
      (one (\<lambda>c. c = 46) (one AZ_ignorecase (many1 AZ_ignorecase end_of_string)))
      (d @ [46] @ t @ e)"
    unfolding many1_iff [of domain_class] by blast
  then have "one (\<lambda>c. c = 64)
      (many1 domain_class
        (one (\<lambda>c. c = 46) (one AZ_ignorecase (many1 AZ_ignorecase end_of_string))))
      ([64] @ d @ [46] @ t @ e)"
    by simp
  with l show "EMAIL_RE_match s"
    unfolding EMAIL_RE_match_def s many1_iff [of local_class] by blast
qed

text \<open>Stripped text never ends in a newline, so on it \<open>$\<close> means the end of the string.\<close>

lemma strip_no_trailing_space: "strip s \<noteq> [] \<Longrightarrow> \<not> isspace (last (strip s))"
proof -
  assume "strip s \<noteq> []"
  then have ne: "dropWhile isspace (rev (dropWhile isspace s)) \<noteq> []"
    by (simp add: strip_def)
  then have "\<not> isspace (hd (dropWhile isspace (rev (dropWhile isspace s))))"
    by (rule hd_dropWhile)
  with ne show ?thesis
    by (simp add: strip_def last_rev)
qed

text \<open>So the check that \<open>handle_email\<close> makes, on the stripped text, is the pattern with
  nothing after the last letters.\<close>

lemma stripped_email_matches_iff:
  "EMAIL_RE_match (strip s) \<longleftrightarrow>
     (\<exists>l d t. strip s = l @ [64] @ d @ [46] @ t \<and>
        l \<noteq> [] \<and> list_all local_class l \<and>
        d \<noteq> [] \<and> list_all domain_class d \<and>
        2 \<le> length t \<and> list_all AZ_ignorecase t)"
proof
  assume "EMAIL_RE_match (strip s)"
  then obtain l d t e where eq: "strip s = l @ [64] @ d @ [46] @ t @ e"
    and parts: "l \<noteq> []" "list_all local_class l" "d \<noteq> []" "list_all domain_class d"
      "2 \<le> length t" "list_all AZ_ignorecase t"
    and e: "e = [] \<or> e = [10]"
    unfolding EMAIL_RE_match_iff by blast
  have "e \<noteq> [10]"
  proof
    assume "e = [10]"
    with eq have "last (strip s) = 10" and "strip s \<noteq> []"
      by simp_all
    then show False
      using strip_no_trailing_space [of s] by (simp add: isspace_def)
  qed
  with e have "e = []" by simp
  with eq parts show "\<exists>l d t. strip s = l @ [64] @ d @ [46] @ t \<and>
        l \<noteq> [] \<and> list_all local_class l \<and>
        d \<noteq> [] \<and> list_all domain_class d \<and>
        2 \<le> length t \<and> list_all AZ_ignorecase t"
    by auto
next
  assume "\<exists>l d t. strip s = l @ [64] @ d @ [46] @ t \<and>
        l \<noteq> [] \<and> list_all local_class l \<and>
        d \<noteq> [] \<and> list_all domain_class d \<and>
        2 \<le> length t \<and> list_all AZ_ignorecase t"
  then obtain l d t where "strip s = l @ [64] @ d @ [46] @ t @ []"
    "l \<noteq> []" "list_all local_class l" "d \<noteq> []" "list_all domain_class d"
    "2 \<le> length t" "list_all AZ_ignorecase t"
    by auto
  then show "EMAIL_RE_match (strip s)"
    unfolding EMAIL_RE_match_iff by blast
qed

section \<open>Facts about \<open>int(s)\<close>\<close>

lemma decimal_below_digits: "c < 48 \<Longrightarrow> decimal c = None"
  by (simp add: decimal_def decimal_zeros_def)

lemma decimal_ascii_digit: "48 \<le> c \<Longrightarrow> c \<le> 57 \<Longrightarrow> decimal c = Some (c - 48)"
  by (simp add: decimal_def decimal_zeros_def)

lemma decimal_above_digits: "57 < c \<Longrightarrow> c < 1632 \<Longrightarrow> decimal c = None"
  by (simp add: decimal_def decimal_zeros_def)

lemmas decimal_simps = decimal_below_digits decimal_ascii_digit decimal_above_digits

text \<open>Some readings: padding and underscores, the separators U+001C to U+001F that \<open>int\<close>
  does not skip, and the message with the \<open>repr\<close> of the argument.\<close>

lemma int_of_str_padded: "int_of_str ([160, 9] @ lit ''-1_001 '' @ [10]) = Inr (- 1001)"
  by (simp add: int_of_str_def int_space_def isspace_def decimal_simps digit_or_underscore_def
      digits_value_def lit_def Let_def)

lemma int_of_str_separator:
  "int_of_str (28 # lit ''5'') =
     Inl (ValueError (lit ''invalid literal for int() with base 10: '' @ [39, 92] @ lit ''x1c5'' @ [39]))"
  by (simp add: int_of_str_def int_space_def isspace_def decimal_simps digit_or_underscore_def
      digits_value_def invalid_literal_def repr_def repr_char_def hex_digit_def lit_def Let_def)

lemma int_of_str_fullwidth: "int_of_str [65297, 65296] = Inr 10"
proof -
  have "decimal 65297 = Some 1" and "decimal 65296 = Some 0"
    by (simp_all add: decimal_def decimal_zeros_def)
  then show ?thesis
    by (simp add: int_of_str_def int_space_def isspace_def digit_or_underscore_def
        digits_value_def Let_def)
qed

lemma digits_ok_replicate: "digits_ok (replicate (Suc n) 49)"
proof (induction n)
  case 0
  show ?case by (simp add: decimal_simps)
next
  case (Suc n)
  then show ?case by (simp add: decimal_simps)
qed

text \<open>A run of 4301 digits is refused, whatever follows it.\<close>

lemma int_of_str_too_long:
  "int_of_str (replicate 4301 49 @ lit ''x'') =
     Inl (ValueError
            (lit ''Exceeds the limit (4300 digits) for integer string conversion: '' @
             lit ''value has 4301 digits; use sys.set_int_max_str_digits() to increase the limit''))"
proof -
  let ?ones = "replicate 4301 (49::nat)"
  have ones: "digit_or_underscore 49" "\<not> int_space 49" "\<not> digit_or_underscore 120"
    by (simp_all add: digit_or_underscore_def int_space_def isspace_def decimal_simps)
  have run: "takeWhile digit_or_underscore (?ones @ [120]) = ?ones"
    using ones by (simp add: takeWhile_append)
  have ok: "digits_ok ?ones"
    using digits_ok_replicate [of 4300] by simp
  have first: "?ones = 49 # replicate 4300 49"
    by (simp add: replicate_Suc [symmetric] del: replicate_Suc)
  have count: "str_nat 4301 = lit ''4301''"
    by (simp add: str_nat.simps lit_def)
  have skip: "dropWhile int_space (?ones @ [120]) = ?ones @ [120]"
    using ones first by simp
  have unsigned: "(case ?ones @ [120] of [] \<Rightarrow> [] | c # cs \<Rightarrow>
      if c = 43 \<or> c = 45 then cs else ?ones @ [120]) = ?ones @ [120]"
    by (simp add: first)
  have x: "lit ''x'' = [120]"
    by (simp add: lit_def)
  show ?thesis
    unfolding int_of_str_def x
    by (simp add: Let_def skip unsigned run ok count) (simp add: lit_def)
qed

section \<open>The branches of \<open>handle_email\<close>\<close>

lemma add_minutes_Inr: "add_minutes a m = Inr dt \<Longrightarrow> dt = a + m * 60000000"
  by (simp add: add_minutes_def Let_def split: if_splits)

lemma request_invite_eq:
  "request_invite g out usr ts w =
     (case int_of_str (GROUP_CHAT_ID g) of
        Inl err \<Rightarrow> (Inl err, w)
      | Inr cid \<Rightarrow>
          (create_chat_invite_link out
             \<lparr>chat_id = cid, member_limit = 1, expire_date = ts, creates_join_request = False,
              name = lit ''patreon_gate_'' @ str_int (user_id usr) @ lit ''_'' @
                     str_int (trunc_seconds (time_name out))\<rparr>,
           \<lparr>sheet = sheet w,
            effects = effects w @
              [CreateInvite
                 \<lparr>chat_id = cid, member_limit = 1, expire_date = ts, creates_join_request = False,
                  name = lit ''patreon_gate_'' @ str_int (user_id usr) @ lit ''_'' @
                         str_int (trunc_seconds (time_name out))\<rparr>]\<rparr>))"
  by (simp add: request_invite_def emit_def Let_def split: sum.split)

lemma opening_eq:
  "snd (user_already_submitted uid (get_ws w)) =
     \<lparr>sheet = sheet (get_ws w), effects = effects w @ opening_effects (sheet w)\<rparr>"
  by (simp add: user_already_submitted_eq get_ws_eq opening_effects_def)

lemma handle_email_invalid:
  assumes "chat_type upd = lit ''private''"
    and "\<not> EMAIL_RE_match (strip (or_empty (message_text upd)))"
  shows "handle_email g out upd w =
           (Inr ASK_EMAIL, \<lparr>sheet = sheet w, effects = effects w @ [Reply invalid_email_text]\<rparr>)"
  using assms by (simp add: handle_email_def reply_text_def emit_def Let_def)

lemma handle_email_duplicate:
  assumes "chat_type upd = lit ''private''"
    and "EMAIL_RE_match (strip (or_empty (message_text upd)))"
    and "fst (user_already_submitted (user_id (effective_user upd)) (get_ws w))"
  shows "handle_email g out upd w =
           (Inr END,
            \<lparr>sheet = sheet (get_ws w),
             effects = effects w @ opening_effects (sheet w) @ [Reply already_submitted_text]\<rparr>)"
proof -
  obtain b w2 where r: "user_already_submitted (user_id (effective_user upd)) (get_ws w) = (b, w2)"
    by (cases "user_already_submitted (user_id (effective_user upd)) (get_ws w)")
  with assms(3) have b by simp
  have w2: "w2 = \<lparr>sheet = sheet (get_ws w), effects = effects w @ opening_effects (sheet w)\<rparr>"
    using r opening_eq [of "user_id (effective_user upd)" w] by simp
  show ?thesis
    using assms(1,2) r \<open>b\<close>
    by (simp add: handle_email_def Let_def reply_text_def emit_def w2)
qed

lemma handle_email_overflow:
  assumes "chat_type upd = lit ''private''"
    and "EMAIL_RE_match (strip (or_empty (message_text upd)))"
    and "\<not> fst (user_already_submitted (user_id (effective_user upd)) (get_ws w))"
    and "add_minutes (now_expire out) (INVITE_EXPIRE_MINUTES g) = Inl err"
  shows "handle_email g out upd w =
           (Inl err, \<lparr>sheet = sheet (get_ws w), effects = effects w @ opening_effects (sheet w)\<rparr>)"
proof -
  obtain b w2 where r: "user_already_submitted (user_id (effective_user upd)) (get_ws w) = (b, w2)"
    by (cases "user_already_submitted (user_id (effective_user upd)) (get_ws w)")
  with assms(3) have "\<not> b" by simp
  have w2: "w2 = \<lparr>sheet = sheet (get_ws w), effects = effects w @ opening_effects (sheet w)\<rparr>"
    using r opening_eq [of "user_id (effective_user upd)" w] by simp
  show ?thesis
    using assms(1,2,4) r \<open>\<not> b\<close>
    by (simp add: handle_email_def Let_def w2)
qed

lemma handle_email_invited:
  assumes "chat_type upd = lit ''private''"
    and "EMAIL_RE_match (strip (or_empty (message_text upd)))"
    and "\<not> fst (user_already_submitted (user_id (effective_user upd)) (get_ws w))"
    and "add_minutes (now_expire out) (INVITE_EXPIRE_MINUTES g) = Inr dt"
  shows "handle_email g out upd w =
     (case request_invite g out (effective_user upd) (trunc_seconds dt)
             \<lparr>sheet = sheet (get_ws w), effects = effects w @ opening_effects (sheet w)\<rparr> of
        (Inl e, w3) \<Rightarrow> (Inr END, reply_text (invite_failed_text e) w3)
      | (Inr invite_link, w3) \<Rightarrow>
          (Inr END,
           reply_text (invite_text invite_link)
             (append_submission (now_append out) (effective_user upd)
                (strip (or_empty (message_text upd))) invite_link w3)))"
proof -
  obtain b w2 where r: "user_already_submitted (user_id (effective_user upd)) (get_ws w) = (b, w2)"
    by (cases "user_already_submitted (user_id (effective_user upd)) (get_ws w)")
  with assms(3) have "\<not> b" by simp
  have w2: "w2 = \<lparr>sheet = sheet (get_ws w), effects = effects w @ opening_effects (sheet w)\<rparr>"
    using r opening_eq [of "user_id (effective_user upd)" w] by simp
  show ?thesis
    using assms(1,2,4) r \<open>\<not> b\<close>
    by (simp add: handle_email_def Let_def w2)
qed

lemma handle_email_not_private:
  "chat_type upd \<noteq> lit ''private'' \<Longrightarrow> handle_email g out upd w = (Inr END, w)"
  by (simp add: handle_email_def)

lemma add_minutes_too_many_days:
  "add_minutes 1700000000999999 1440000000000 =
     Inl (OverflowError (lit ''days=1000000000; must have magnitude <= 999999999''))"
  by (simp add: add_minutes_def Let_def str_int_def str_nat.simps lit_def)

lemma add_minutes_out_of_range:
  "add_minutes 1700000000999999 4200000000 = Inl (OverflowError (lit ''date value out of range''))"
  by (simp add: add_minutes_def Let_def datetime_min_def datetime_max_def)

section \<open>Properties of the handlers\<close>

text \<open>
  C9. A text message handled while the conversation awaits the email, in a chat that is
  not a private one, ends the conversation at once: the handler returns
  \<open>ConversationHandler.END\<close> and the world is exactly as before, so no reply is sent, the
  text is not validated, the sheet is not opened and no invite is requested.
\<close>

theorem handle_email_outside_private_chat:
  assumes "chat_type upd \<noteq> lit ''private''"
  shows "handle_email g out upd w = (Inr END, w)"
  using assms by (simp add: handle_email_def)

theorem handle_email_outside_private_chat_witness:
  "chat_type (group_message (lit ''name@example.com'')) \<noteq> lit ''private'' \<and>
   handle_email settings granting (group_message (lit ''name@example.com'')) used = (Inr END, used)"
proof -
  have h: "chat_type (group_message (lit ''name@example.com'')) \<noteq> lit ''private''"
    by (simp add: group_message_def lit_def)
  show ?thesis
    using h handle_email_outside_private_chat [OF h, of settings granting used] by simp
qed

section \<open>Example runs\<close>

lemmas run_simps =
  handle_email_def request_invite_def get_ws_def user_already_submitted_def
  ws_row_values_def ws_col_values_def ws_append_row_def emit_def reply_text_def
  append_submission_def row_values_def col_values_def append_row_def trim_trailing_def
  cell_def blank_row_def HEADER_def lit_def strip_def isspace_def EMAIL_RE_match_def
  local_class_def domain_class_def AZ_ignorecase_def isdigit_def end_of_string_def
  or_empty_def add_minutes_def datetime_min_def datetime_max_def trunc_seconds_def
  int_of_str_def digits_value_def int_space_def decimal_simps
  digit_or_underscore_def invalid_literal_def repr_def repr_char_def hex_digit_def str_int_def str_nat.simps full_name_def
  ann_def settings_def api_grants_def api_refuses_def granting_def refusing_def dm_def
  group_message_def fresh_def opened_def ann_row_def used_def note_above_def foreign_header_def
  recorded_below_note_def id_column_def
  column_below_header_def submission_row_def invite_request_for_def Let_def

lemma spaced_email_does_not_match: "\<not> EMAIL_RE_match (lit '' name@example.com '')"
  by (simp add: run_simps)

lemma spaced_email_stripped: "strip (lit '' name@example.com '') = lit ''name@example.com''"
  by (simp add: run_simps)

lemma plain_email_matches: "EMAIL_RE_match (lit ''name@example.com'')"
  by (simp add: run_simps)

lemma hello_does_not_match: "\<not> EMAIL_RE_match (strip (lit ''hello''))"
  by (simp add: run_simps)

lemma first_run:
  "handle_email settings granting (dm (lit '' name@example.com '')) fresh =
     (Inr END,
      \<lparr>sheet = [HEADER,
                 submission_row 1700000002000000 ann (lit ''name@example.com'')
                   (lit ''https://t.me/+abc'')],
       effects = [OpenSheet, RowValues 1, AppendRow HEADER RAW, RowValues 1, ColValues 2,
                  CreateInvite (invite_request_for settings granting ann (- 1001)),
                  AppendRow
                    (submission_row 1700000002000000 ann (lit ''name@example.com'')
                       (lit ''https://t.me/+abc''))
                    RAW,
                  Reply (invite_text (lit ''https://t.me/+abc''))]\<rparr>)"
  by (simp add: run_simps)

lemma refused_first_run:
  "handle_email settings refusing (dm (lit ''name@example.com'')) fresh =
     (Inr END,
      \<lparr>sheet = [HEADER],
       effects = [OpenSheet, RowValues 1, AppendRow HEADER RAW, RowValues 1, ColValues 2,
                  CreateInvite (invite_request_for settings refusing ann (- 1001)),
                  Reply (invite_failed_text
                           \<lparr>type_name = lit ''BadRequest'', message = lit ''Not enough rights''\<rparr>)]\<rparr>)"
  by (simp add: run_simps)



lemma used_header: "index (row_values (sheet used) 1) (lit ''telegram_user_id'') = Some 1"
  by (simp add: run_simps)

lemma used_holds_ann:
  "str_int (user_id (effective_user (dm (lit ''name@example.com''))))
     \<in> set (column_below_header (sheet used) (1 + 1))"
  by (simp add: run_simps)

section \<open>Validation of the email\<close>

text \<open>
  C4, as the code has it. In a private chat, a message whose text, stripped of leading and
  trailing whitespace, does not match the email pattern gets the corrective prompt and the
  conversation stays in \<open>ASK_EMAIL\<close>; the prompt is the only thing the run does, so the
  sheet is not opened, no duplicate check runs, no invite is requested and no row is
  appended.
\<close>

theorem invalid_email_stays_in_ask_email:
  assumes "chat_type upd = lit ''private''"
    and "\<not> EMAIL_RE_match (strip (or_empty (message_text upd)))"
  shows "handle_email g out upd w = (Inr ASK_EMAIL, w\<lparr>effects := effects w @ [Reply invalid_email_text]\<rparr>)"
  using assms by (simp add: handle_email_def reply_text_def emit_def Let_def)

theorem invalid_email_stays_in_ask_email_witness:
  "chat_type (dm (lit ''hello'')) = lit ''private'' \<and>
   \<not> EMAIL_RE_match (strip (or_empty (message_text (dm (lit ''hello''))))) \<and>
   handle_email settings granting (dm (lit ''hello'')) used =
     (Inr ASK_EMAIL, used\<lparr>effects := effects used @ [Reply invalid_email_text]\<rparr>)"
proof -
  have h1: "chat_type (dm (lit ''hello'')) = lit ''private''"
    by (simp add: dm_def)
  have h2: "\<not> EMAIL_RE_match (strip (or_empty (message_text (dm (lit ''hello'')))))"
    using hello_does_not_match by (simp add: dm_def or_empty_def)
  show ?thesis
    using h1 h2 invalid_email_stays_in_ask_email [OF h1 h2, of settings granting used] by simp
qed

text \<open>
  The claim as the specification words it fails in two ways. A text with surrounding
  whitespace does not match the pattern, and yet the run goes on to the admission
  procedure and requests an invite, because the text is stripped first. And in a chat that
  is not private a text that does not match gets no corrective prompt: the conversation
  ends.
\<close>

theorem unmatched_text_counterexample:
  "\<not> EMAIL_RE_match (lit '' name@example.com '') \<and>
   fst (handle_email settings granting (dm (lit '' name@example.com '')) fresh) = Inr END \<and>
   CreateInvite (invite_request_for settings granting ann (- 1001))
     \<in> set (effects (snd (handle_email settings granting (dm (lit '' name@example.com '')) fresh))) \<and>
   \<not> EMAIL_RE_match (lit ''hello'') \<and>
   handle_email settings granting (group_message (lit ''hello'')) fresh = (Inr END, fresh)"
proof -
  have "\<not> EMAIL_RE_match (lit ''hello'')"
    by (simp add: run_simps)
  moreover have "handle_email settings granting (group_message (lit ''hello'')) fresh = (Inr END, fresh)"
    by (simp add: handle_email_def group_message_def lit_def)
  ultimately show ?thesis
    using spaced_email_does_not_match by (simp add: first_run)
qed

section \<open>The duplicate check\<close>

text \<open>
  C5. The duplicate check reads the first row and looks for \<open>telegram_user_id\<close> in it. When
  the name stands there, first at position \<open>i\<close> (counted from 0), the check answers whether
  the user's id, written as a decimal string, is the content of a cell of column \<open>i + 1\<close>
  in some row below the first. When the first row does not hold the name, it answers the
  same question for column 2.
\<close>

theorem user_already_submitted_reads_id_column:
  "(i < length (row_values (sheet w) 1) \<and>
    row_values (sheet w) 1 ! i = lit ''telegram_user_id'' \<and>
    lit ''telegram_user_id'' \<notin> set (take i (row_values (sheet w) 1)) \<longrightarrow>
      fst (user_already_submitted uid w) =
        (str_int uid \<in> set (column_below_header (sheet w) (i + 1)))) \<and>
   (lit ''telegram_user_id'' \<notin> set (row_values (sheet w) 1) \<longrightarrow>
      fst (user_already_submitted uid w) =
        (str_int uid \<in> set (column_below_header (sheet w) 2)))"
proof (intro conjI impI)
  assume "i < length (row_values (sheet w) 1) \<and>
    row_values (sheet w) 1 ! i = lit ''telegram_user_id'' \<and>
    lit ''telegram_user_id'' \<notin> set (take i (row_values (sheet w) 1))"
  then have "index (row_values (sheet w) 1) (lit ''telegram_user_id'') = Some i"
    by (simp add: index_Some_iff)
  then have "id_column (sheet w) = i + 1"
    by (simp add: id_column_def)
  then show "fst (user_already_submitted uid w) =
      (str_int uid \<in> set (column_below_header (sheet w) (i + 1)))"
    by (simp add: user_already_submitted_eq recorded_iff_cells_Suc)
next
  assume "lit ''telegram_user_id'' \<notin> set (row_values (sheet w) 1)"
  then have "index (row_values (sheet w) 1) (lit ''telegram_user_id'') = None"
    by (simp add: index_None_iff)
  then have "id_column (sheet w) = 2"
    by (simp add: id_column_def)
  then show "fst (user_already_submitted uid w) =
      (str_int uid \<in> set (column_below_header (sheet w) 2))"
    by (simp add: user_already_submitted_eq recorded_iff_cells_Suc)
qed

text \<open>
  The witness reads two sheets: one with the bot's own header, where Ann's id 42 stands in
  column 2, and one without a first row above a line of notes, where nothing stands in
  column 2.
\<close>

theorem user_already_submitted_reads_id_column_witness:
  "(1 < length (row_values (sheet used) 1) \<and>
    row_values (sheet used) 1 ! 1 = lit ''telegram_user_id'' \<and>
    lit ''telegram_user_id'' \<notin> set (take 1 (row_values (sheet used) 1))) \<and>
   fst (user_already_submitted 42 used) \<and>
   str_int 42 \<in> set (column_below_header (sheet used) (1 + 1)) \<and>
   lit ''telegram_user_id'' \<notin> set (row_values (sheet note_above) 1) \<and>
   \<not> fst (user_already_submitted 42 note_above) \<and>
   str_int 42 \<notin> set (column_below_header (sheet note_above) 2)"
proof -
  have h1: "1 < length (row_values (sheet used) 1) \<and>
    row_values (sheet used) 1 ! 1 = lit ''telegram_user_id'' \<and>
    lit ''telegram_user_id'' \<notin> set (take 1 (row_values (sheet used) 1))"
    by (simp add: run_simps)
  have h2: "lit ''telegram_user_id'' \<notin> set (row_values (sheet note_above) 1)"
    by (simp add: run_simps)
  have c1: "str_int 42 \<in> set (column_below_header (sheet used) (1 + 1))"
    by (simp add: run_simps)
  have c2: "str_int 42 \<notin> set (column_below_header (sheet note_above) 2)"
    by (simp add: run_simps)
  have "fst (user_already_submitted 42 used)"
    using user_already_submitted_reads_id_column [of 1 used 42] h1 c1 by blast
  moreover have "\<not> fst (user_already_submitted 42 note_above)"
    using user_already_submitted_reads_id_column [of 0 note_above 42] h2 c2 by blast
  ultimately show ?thesis
    using h1 h2 c1 c2 by blast
qed




section \<open>The two outcomes of the invite request\<close>

lemma handle_email_refused:
  assumes "chat_type upd = lit ''private''"
    and "EMAIL_RE_match (strip (or_empty (message_text upd)))"
    and "\<not> fst (user_already_submitted (user_id (effective_user upd)) (get_ws w))"
    and "add_minutes (now_expire out) (INVITE_EXPIRE_MINUTES g) = Inr dt"
    and "int_of_str (GROUP_CHAT_ID g) = Inl e \<or>
         (\<exists>cid. int_of_str (GROUP_CHAT_ID g) = Inr cid \<and>
            create_chat_invite_link out (invite_request_for g out (effective_user upd) cid) = Inl e)"
  shows "handle_email g out upd w =
     (Inr END,
      \<lparr>sheet = sheet (get_ws w),
       effects = effects w @ opening_effects (sheet w) @
         (case int_of_str (GROUP_CHAT_ID g) of
            Inl _ \<Rightarrow> []
          | Inr cid \<Rightarrow> [CreateInvite (invite_request_for g out (effective_user upd) cid)]) @
         [Reply (invite_failed_text e)]\<rparr>)"
proof -
  have dt: "dt = now_expire out + INVITE_EXPIRE_MINUTES g * 60000000"
    using assms(4) by (rule add_minutes_Inr)
  from assms(5) show ?thesis
  proof
    assume "int_of_str (GROUP_CHAT_ID g) = Inl e"
    then show ?thesis
      using handle_email_invited [OF assms(1-4)]
      by (simp add: request_invite_eq reply_text_def emit_def)
  next
    assume "\<exists>cid. int_of_str (GROUP_CHAT_ID g) = Inr cid \<and>
      create_chat_invite_link out (invite_request_for g out (effective_user upd) cid) = Inl e"
    then obtain cid where cid: "int_of_str (GROUP_CHAT_ID g) = Inr cid"
      and api: "create_chat_invite_link out (invite_request_for g out (effective_user upd) cid) = Inl e"
      by blast
    from api have "create_chat_invite_link out
        \<lparr>chat_id = cid, member_limit = 1, expire_date = trunc_seconds dt,
         creates_join_request = False,
         name = lit ''patreon_gate_'' @ str_int (user_id (effective_user upd)) @ lit ''_'' @
                str_int (trunc_seconds (time_name out))\<rparr> = Inl e"
      by (simp add: invite_request_for_def dt)
    then show ?thesis
      using handle_email_invited [OF assms(1-4)] cid
      by (simp add: request_invite_eq reply_text_def emit_def invite_request_for_def dt)
  qed
qed

lemma handle_email_granted:
  assumes "chat_type upd = lit ''private''"
    and "EMAIL_RE_match (strip (or_empty (message_text upd)))"
    and "\<not> fst (user_already_submitted (user_id (effective_user upd)) (get_ws w))"
    and "add_minutes (now_expire out) (INVITE_EXPIRE_MINUTES g) = Inr dt"
    and "int_of_str (GROUP_CHAT_ID g) = Inr cid"
    and "create_chat_invite_link out (invite_request_for g out (effective_user upd) cid) = Inr link"
  shows "handle_email g out upd w =
     (Inr END,
      \<lparr>sheet = append_row (sheet (get_ws w))
                 (submission_row (now_append out) (effective_user upd)
                    (strip (or_empty (message_text upd))) link),
       effects = effects w @ opening_effects (sheet w) @
         [CreateInvite (invite_request_for g out (effective_user upd) cid),
          AppendRow
            (submission_row (now_append out) (effective_user upd)
               (strip (or_empty (message_text upd))) link)
            RAW,
          Reply (invite_text link)]\<rparr>)"
proof -
  have dt: "dt = now_expire out + INVITE_EXPIRE_MINUTES g * 60000000"
    using assms(4) by (rule add_minutes_Inr)
  from assms(6) have "create_chat_invite_link out
      \<lparr>chat_id = cid, member_limit = 1, expire_date = trunc_seconds dt,
       creates_join_request = False,
       name = lit ''patreon_gate_'' @ str_int (user_id (effective_user upd)) @ lit ''_'' @
              str_int (trunc_seconds (time_name out))\<rparr> = Inr link"
    by (simp add: invite_request_for_def dt)
  then show ?thesis
    using handle_email_invited [OF assms(1-4)] assms(5)
    by (simp add: request_invite_eq reply_text_def emit_def invite_request_for_def dt
        append_submission_def ws_append_row_def submission_row_def)
qed

lemma no_invite_in_opening_effects: "CreateInvite req \<notin> set (opening_effects ws)"
  by (simp add: opening_effects_def)

lemma new_effects_eq:
  "effects (snd (handle_email g out upd w)) = effects w @ xs \<Longrightarrow> new_effects g out upd w = xs"
  by (simp add: new_effects_def)

lemma full_name_cases:
  "full_name usr =
     (if first_name usr = [] then or_empty (last_name usr)
      else if or_empty (last_name usr) = [] then first_name usr
      else first_name usr @ lit '' '' @ or_empty (last_name usr))"
  by (simp add: full_name_def)

lemma END_not_ASK_EMAIL: "END \<noteq> ASK_EMAIL"
  by (simp add: END_def ASK_EMAIL_def)

text \<open>Every run on a private chat with a valid email opens the sheet and does not return
  to \<open>ASK_EMAIL\<close>.\<close>

lemma handle_email_valid:
  assumes "chat_type upd = lit ''private''"
    and "EMAIL_RE_match (strip (or_empty (message_text upd)))"
  shows "fst (handle_email g out upd w) \<noteq> Inr ASK_EMAIL \<and>
         (\<exists>rest. effects (snd (handle_email g out upd w)) =
                   effects w @ opening_effects (sheet w) @ rest)"
proof (cases "fst (user_already_submitted (user_id (effective_user upd)) (get_ws w))")
  case True
  show ?thesis
    using handle_email_duplicate [OF assms True, of g out] END_not_ASK_EMAIL by simp
next
  case False
  show ?thesis
  proof (cases "add_minutes (now_expire out) (INVITE_EXPIRE_MINUTES g)")
    case (Inl err)
    show ?thesis
      using handle_email_overflow [OF assms False Inl] by simp
  next
    case (Inr dt)
    show ?thesis
    proof (cases "int_of_str (GROUP_CHAT_ID g)")
      case (Inl e)
      then show ?thesis
        using handle_email_refused [OF assms False Inr, of e] END_not_ASK_EMAIL by simp
    next
      case cid: (Inr cid)
      show ?thesis
      proof (cases "create_chat_invite_link out (invite_request_for g out (effective_user upd) cid)")
        case (Inl e)
        with cid show ?thesis
          using handle_email_refused [OF assms False Inr, of e] END_not_ASK_EMAIL by simp
      next
        case link: (Inr link)
        show ?thesis
          using handle_email_granted [OF assms False Inr cid link] END_not_ASK_EMAIL by simp
      qed
    qed
  qed
qed

text \<open>The only invite request a run can send is the one built for its user.\<close>

lemma invite_requests_of_run:
  assumes "CreateInvite req \<in> set (new_effects g out upd w)"
  shows "\<exists>cid. int_of_str (GROUP_CHAT_ID g) = Inr cid \<and>
               req = invite_request_for g out (effective_user upd) cid"
proof (cases "chat_type upd = lit ''private''")
  case False
  then have "new_effects g out upd w = []"
    by (simp add: new_effects_def handle_email_not_private)
  with assms show ?thesis by simp
next
  case priv: True
  show ?thesis
  proof (cases "EMAIL_RE_match (strip (or_empty (message_text upd)))")
    case False
    then have "new_effects g out upd w = [Reply invalid_email_text]"
      using handle_email_invalid [OF priv False, of g out w] by (simp add: new_effects_def)
    with assms show ?thesis by simp
  next
    case valid: True
    show ?thesis
    proof (cases "fst (user_already_submitted (user_id (effective_user upd)) (get_ws w))")
      case True
      have "new_effects g out upd w = opening_effects (sheet w) @ [Reply already_submitted_text]"
        using handle_email_duplicate [OF priv valid True, of g out]
        by (simp add: new_effects_def)
      with assms show ?thesis
        by (simp add: no_invite_in_opening_effects)
    next
      case fresh_id: False
      show ?thesis
      proof (cases "add_minutes (now_expire out) (INVITE_EXPIRE_MINUTES g)")
        case (Inl err)
        have "new_effects g out upd w = opening_effects (sheet w)"
          using handle_email_overflow [OF priv valid fresh_id Inl]
          by (simp add: new_effects_def)
        with assms show ?thesis
          by (simp add: no_invite_in_opening_effects)
      next
        case (Inr dt)
        show ?thesis
        proof (cases "int_of_str (GROUP_CHAT_ID g)")
          case (Inl e)
          then have "new_effects g out upd w =
              opening_effects (sheet w) @ [Reply (invite_failed_text e)]"
            using handle_email_refused [OF priv valid fresh_id Inr, of e]
            by (simp add: new_effects_def)
          with assms show ?thesis
            by (simp add: no_invite_in_opening_effects)
        next
          case cid: (Inr cid)
          show ?thesis
          proof (cases "create_chat_invite_link out
              (invite_request_for g out (effective_user upd) cid)")
            case (Inl e)
            with cid have "new_effects g out upd w =
                opening_effects (sheet w) @
                [CreateInvite (invite_request_for g out (effective_user upd) cid),
                 Reply (invite_failed_text e)]"
              using handle_email_refused [OF priv valid fresh_id Inr, of e]
              by (simp add: new_effects_def)
            with assms cid show ?thesis
              by (simp add: no_invite_in_opening_effects)
          next
            case link: (Inr link)
            have "new_effects g out upd w =
                opening_effects (sheet w) @
                [CreateInvite (invite_request_for g out (effective_user upd) cid),
                 AppendRow
                   (submission_row (now_append out) (effective_user upd)
                      (strip (or_empty (message_text upd))) link)
                   RAW,
                 Reply (invite_text link)]"
              using handle_email_granted [OF priv valid fresh_id Inr cid link]
              by (simp add: new_effects_def)
            with assms cid show ?thesis
              by (simp add: no_invite_in_opening_effects)
          qed
        qed
      qed
    qed
  qed
qed

section \<open>The admission procedure\<close>

lemma opened_not_recorded:
  "\<not> fst (user_already_submitted (user_id (effective_user (dm (lit '' name@example.com ''))))
           (get_ws opened))"
  by (simp add: run_simps)

lemma fresh_not_recorded:
  "\<not> fst (user_already_submitted (user_id (effective_user (dm (lit ''name@example.com''))))
           (get_ws fresh))"
  by (simp add: run_simps)

lemma expiry_in_range:
  "add_minutes (now_expire granting) (INVITE_EXPIRE_MINUTES settings) = Inr 1700000600999999"
  by (simp add: run_simps)

lemma expiry_in_range_refusing:
  "add_minutes (now_expire refusing) (INVITE_EXPIRE_MINUTES settings) = Inr 1700000600999999"
  by (simp add: run_simps)

lemma settings_chat_id: "int_of_str (GROUP_CHAT_ID settings) = Inr (- 1001)"
  by (simp add: run_simps)

lemma dm_private: "chat_type (dm txt) = lit ''private''"
  by (simp add: dm_def)

lemma spaced_email_valid:
  "EMAIL_RE_match (strip (or_empty (message_text (dm (lit '' name@example.com '')))))"
  by (simp add: dm_def or_empty_def spaced_email_stripped plain_email_matches)

lemma plain_email_valid:
  "EMAIL_RE_match (strip (or_empty (message_text (dm (lit ''name@example.com'')))))"
  by (simp add: run_simps)



text \<open>
  C10. The text is stripped before it is validated and before it is recorded. In a
  private chat, when the stripped text matches the pattern, the run does not return to
  \<open>ASK_EMAIL\<close> and goes on to open the sheet; and when the run then appends the
  submission (the user is not found, the expiry date is in range, the chat id parses and
  the Bot API answers with a link), the fifth cell of the last row of the sheet, the
  column the header calls \<open>patreon_email\<close>, is the stripped text.
\<close>

theorem stripped_email_is_validated_and_stored:
  assumes "chat_type upd = lit ''private''"
    and "EMAIL_RE_match (strip (or_empty (message_text upd)))"
  shows "fst (handle_email g out upd w) \<noteq> Inr ASK_EMAIL \<and>
         (\<exists>rest. new_effects g out upd w = OpenSheet # rest) \<and>
         cell HEADER 5 = lit ''patreon_email'' \<and>
         (\<not> fst (user_already_submitted (user_id (effective_user upd)) (get_ws w)) \<and>
          add_minutes (now_expire out) (INVITE_EXPIRE_MINUTES g) = Inr dt \<and>
          int_of_str (GROUP_CHAT_ID g) = Inr cid \<and>
          create_chat_invite_link out (invite_request_for g out (effective_user upd) cid) = Inr link
          \<longrightarrow> cell (last (sheet (snd (handle_email g out upd w)))) 5 =
                strip (or_empty (message_text upd)))"
proof (intro conjI impI)
  show "fst (handle_email g out upd w) \<noteq> Inr ASK_EMAIL"
    using handle_email_valid [OF assms] by blast
  obtain rest where "effects (snd (handle_email g out upd w)) =
      effects w @ opening_effects (sheet w) @ rest"
    using handle_email_valid [OF assms, of g out w] by blast
  then have "new_effects g out upd w = opening_effects (sheet w) @ rest"
    by (simp add: new_effects_def)
  then show "\<exists>rest. new_effects g out upd w = OpenSheet # rest"
    by (simp add: opening_effects_def)
  show "cell HEADER 5 = lit ''patreon_email''"
    by (simp add: cell_def HEADER_def)
next
  assume "\<not> fst (user_already_submitted (user_id (effective_user upd)) (get_ws w)) \<and>
          add_minutes (now_expire out) (INVITE_EXPIRE_MINUTES g) = Inr dt \<and>
          int_of_str (GROUP_CHAT_ID g) = Inr cid \<and>
          create_chat_invite_link out (invite_request_for g out (effective_user upd) cid) = Inr link"
  then have "handle_email g out upd w =
     (Inr END,
      \<lparr>sheet = append_row (sheet (get_ws w))
                 (submission_row (now_append out) (effective_user upd)
                    (strip (or_empty (message_text upd))) link),
       effects = effects w @ opening_effects (sheet w) @
         [CreateInvite (invite_request_for g out (effective_user upd) cid),
          AppendRow
            (submission_row (now_append out) (effective_user upd)
               (strip (or_empty (message_text upd))) link)
            RAW,
          Reply (invite_text link)]\<rparr>)"
    using handle_email_granted [OF assms] by blast
  then show "cell (last (sheet (snd (handle_email g out upd w)))) 5 =
      strip (or_empty (message_text upd))"
    by (simp add: append_row_def submission_row_def cell_def)
qed

theorem stripped_email_is_validated_and_stored_witness:
  "chat_type (dm (lit '' name@example.com '')) = lit ''private'' \<and>
   EMAIL_RE_match (strip (or_empty (message_text (dm (lit '' name@example.com ''))))) \<and>
   \<not> EMAIL_RE_match (lit '' name@example.com '') \<and>
   fst (handle_email settings granting (dm (lit '' name@example.com '')) opened) \<noteq> Inr ASK_EMAIL \<and>
   cell (last (sheet (snd (handle_email settings granting (dm (lit '' name@example.com '')) opened)))) 5 =
     lit ''name@example.com''"
proof -
  have api: "create_chat_invite_link granting
     (invite_request_for settings granting
        (effective_user (dm (lit '' name@example.com ''))) (- 1001)) = Inr (lit ''https://t.me/+abc'')"
    by (simp add: granting_def api_grants_def)
  have stripped: "strip (or_empty (message_text (dm (lit '' name@example.com '')))) =
      lit ''name@example.com''"
    by (simp add: dm_def or_empty_def spaced_email_stripped)
  show ?thesis
    using stripped_email_is_validated_and_stored
      [OF dm_private spaced_email_valid, of settings granting opened 1700000600999999 "- 1001"
        "lit ''https://t.me/+abc''"]
      dm_private spaced_email_valid opened_not_recorded expiry_in_range settings_chat_id api
      spaced_email_does_not_match
    by (simp only: stripped) blast
qed

text \<open>
  C2, as the code has it. In a private chat, with a text that passes validation, a user
  the duplicate check does not find and an expiry date in range: when the invite cannot
  be issued, because the chat id does not parse or because the Bot API raises, the
  conversation ends and no submission row is appended. The sheet is the one \<open>get_ws\<close>
  left: the sheet of before when its first row was not empty, and the sheet of before
  with the header row appended otherwise. After the reads of the opening the run sends the
  invite request (when the chat id parsed) and then the diagnostic reply, which ends with
  the type and the message of the error.
\<close>

theorem failed_invite_appends_no_submission:
  assumes "chat_type upd = lit ''private''"
    and "EMAIL_RE_match (strip (or_empty (message_text upd)))"
    and "\<not> fst (user_already_submitted (user_id (effective_user upd)) (get_ws w))"
    and "add_minutes (now_expire out) (INVITE_EXPIRE_MINUTES g) = Inr dt"
    and "int_of_str (GROUP_CHAT_ID g) = Inl e \<or>
         (\<exists>cid. int_of_str (GROUP_CHAT_ID g) = Inr cid \<and>
            create_chat_invite_link out (invite_request_for g out (effective_user upd) cid) = Inl e)"
  shows "fst (handle_email g out upd w) = Inr END \<and>
         sheet (snd (handle_email g out upd w)) =
           (if row_values (sheet w) 1 = [] then append_row (sheet w) HEADER else sheet w) \<and>
         new_effects g out upd w =
           opening_effects (sheet w) @
           (case int_of_str (GROUP_CHAT_ID g) of
              Inl _ \<Rightarrow> []
            | Inr cid \<Rightarrow> [CreateInvite (invite_request_for g out (effective_user upd) cid)]) @
           [Reply (invite_failed_text e)] \<and>
         (\<exists>p. invite_failed_text e = p @ lit ''Error: '' @ type_name e @ lit '': '' @ message e)"
proof -
  have "\<exists>p. invite_failed_text e = p @ lit ''Error: '' @ type_name e @ lit '': '' @ message e"
    unfolding invite_failed_text_def by (metis append.assoc)
  then show ?thesis
    using handle_email_refused [OF assms]
    by (simp add: new_effects_def get_ws_eq)
qed

theorem failed_invite_appends_no_submission_witness:
  "chat_type (dm (lit ''name@example.com'')) = lit ''private'' \<and>
   EMAIL_RE_match (strip (or_empty (message_text (dm (lit ''name@example.com''))))) \<and>
   \<not> fst (user_already_submitted (user_id (effective_user (dm (lit ''name@example.com''))))
          (get_ws opened)) \<and>
   add_minutes (now_expire refusing) (INVITE_EXPIRE_MINUTES settings) = Inr 1700000600999999 \<and>
   int_of_str (GROUP_CHAT_ID settings) = Inr (- 1001) \<and>
   create_chat_invite_link refusing
     (invite_request_for settings refusing (effective_user (dm (lit ''name@example.com''))) (- 1001)) =
     Inl \<lparr>type_name = lit ''BadRequest'', message = lit ''Not enough rights''\<rparr> \<and>
   fst (handle_email settings refusing (dm (lit ''name@example.com'')) opened) = Inr END \<and>
   sheet (snd (handle_email settings refusing (dm (lit ''name@example.com'')) opened)) = sheet opened"
proof -
  have api: "create_chat_invite_link refusing
     (invite_request_for settings refusing (effective_user (dm (lit ''name@example.com''))) (- 1001)) =
     Inl \<lparr>type_name = lit ''BadRequest'', message = lit ''Not enough rights''\<rparr>"
    by (simp add: refusing_def api_refuses_def)
  have unseen: "\<not> fst (user_already_submitted
      (user_id (effective_user (dm (lit ''name@example.com'')))) (get_ws opened))"
    by (simp add: run_simps)
  have first: "row_values (sheet opened) 1 \<noteq> []"
    by (simp add: run_simps)
  have fails: "int_of_str (GROUP_CHAT_ID settings) =
        Inl \<lparr>type_name = lit ''BadRequest'', message = lit ''Not enough rights''\<rparr> \<or>
      (\<exists>cid. int_of_str (GROUP_CHAT_ID settings) = Inr cid \<and>
         create_chat_invite_link refusing
           (invite_request_for settings refusing (effective_user (dm (lit ''name@example.com''))) cid) =
         Inl \<lparr>type_name = lit ''BadRequest'', message = lit ''Not enough rights''\<rparr>)"
    using settings_chat_id api by blast
  show ?thesis
    using failed_invite_appends_no_submission
      [OF dm_private plain_email_valid unseen expiry_in_range_refusing fails]
      dm_private plain_email_valid unseen expiry_in_range_refusing settings_chat_id api first
    by simp
qed

text \<open>
  The claim as the specification words it, with the table unchanged, fails on a sheet
  whose first row is empty: the Bot API refuses the invite, and the run has yet written
  the header row.
\<close>

theorem failed_invite_on_fresh_sheet_counterexample:
  "create_chat_invite_link refusing (invite_request_for settings refusing ann (- 1001)) =
     Inl \<lparr>type_name = lit ''BadRequest'', message = lit ''Not enough rights''\<rparr> \<and>
   fst (handle_email settings refusing (dm (lit ''name@example.com'')) fresh) = Inr END \<and>
   sheet fresh = [] \<and>
   sheet (snd (handle_email settings refusing (dm (lit ''name@example.com'')) fresh)) = [HEADER] \<and>
   sheet (snd (handle_email settings refusing (dm (lit ''name@example.com'')) fresh)) \<noteq> sheet fresh"
  by (simp add: refused_first_run) (simp add: refusing_def api_refuses_def fresh_def)

section \<open>The invite request\<close>

lemma default_expiry: "int_of_str (lit ''10'') = Inr 10"
  by (simp add: run_simps)

text \<open>
  C6. Every invite request a run of \<open>handle_email\<close> sends has a member limit of 1, asks for
  no join request (a direct join), expires at the reading of the clock plus the
  configured number of minutes, in whole seconds, is named \<open>patreon_gate_\<close>, the user id,
  an underscore and the reading of \<open>time.time()\<close> in whole seconds, and goes to the chat
  whose id is the configured one. When the environment does not set
  \<open>INVITE_EXPIRE_MINUTES\<close>, the configured number of minutes is 10.
\<close>

theorem invite_request_is_constrained:
  "(CreateInvite req \<in> set (new_effects g out upd w) \<longrightarrow>
      member_limit req = 1 \<and>
      expire_date req = trunc_seconds (now_expire out + INVITE_EXPIRE_MINUTES g * 60000000) \<and>
      \<not> creates_join_request req \<and>
      name req = lit ''patreon_gate_'' @ str_int (user_id (effective_user upd)) @ lit ''_'' @
                 str_int (trunc_seconds (time_name out)) \<and>
      int_of_str (GROUP_CHAT_ID g) = Inr (chat_id req)) \<and>
   (e (lit ''INVITE_EXPIRE_MINUTES'') = None \<and> load_globals e = Inr g' \<longrightarrow>
      INVITE_EXPIRE_MINUTES g' = 10)"
proof (intro conjI impI)
  assume "CreateInvite req \<in> set (new_effects g out upd w)"
  then obtain cid where cid: "int_of_str (GROUP_CHAT_ID g) = Inr cid"
    and req: "req = invite_request_for g out (effective_user upd) cid"
    using invite_requests_of_run by blast
  show "member_limit req = 1"
    by (simp add: req invite_request_for_def)
  show "expire_date req = trunc_seconds (now_expire out + INVITE_EXPIRE_MINUTES g * 60000000)"
    by (simp add: req invite_request_for_def)
  show "\<not> creates_join_request req"
    by (simp add: req invite_request_for_def)
  show "name req = lit ''patreon_gate_'' @ str_int (user_id (effective_user upd)) @ lit ''_'' @
      str_int (trunc_seconds (time_name out))"
    by (simp add: req invite_request_for_def)
  show "int_of_str (GROUP_CHAT_ID g) = Inr (chat_id req)"
    by (simp add: req cid invite_request_for_def)
next
  assume "e (lit ''INVITE_EXPIRE_MINUTES'') = None \<and> load_globals e = Inr g'"
  then show "INVITE_EXPIRE_MINUTES g' = 10"
    by (auto simp add: load_globals_def getenv_def default_expiry)
qed

lemma first_run_request:
  "CreateInvite (invite_request_for settings granting ann (- 1001))
     \<in> set (new_effects settings granting (dm (lit '' name@example.com '')) fresh)"
  by (simp add: new_effects_def first_run) (simp add: fresh_def)

lemma load_defaults: "load_globals Map.empty = Inr defaults"
  by (simp add: load_globals_def getenv_def defaults_def run_simps)

theorem invite_request_is_constrained_witness:
  "CreateInvite (invite_request_for settings granting ann (- 1001))
     \<in> set (new_effects settings granting (dm (lit '' name@example.com '')) fresh) \<and>
   member_limit (invite_request_for settings granting ann (- 1001)) = 1 \<and>
   expire_date (invite_request_for settings granting ann (- 1001)) = 1700000600 \<and>
   \<not> creates_join_request (invite_request_for settings granting ann (- 1001)) \<and>
   name (invite_request_for settings granting ann (- 1001)) = lit ''patreon_gate_42_1700000001'' \<and>
   Map.empty (lit ''INVITE_EXPIRE_MINUTES'') = None \<and>
   load_globals Map.empty = Inr defaults \<and>
   INVITE_EXPIRE_MINUTES defaults = 10"
proof -
  have expiry: "trunc_seconds (now_expire granting + INVITE_EXPIRE_MINUTES settings * 60000000) =
      1700000600"
    by (simp add: run_simps)
  have link_name: "lit ''patreon_gate_'' @
      str_int (user_id (effective_user (dm (lit '' name@example.com '')))) @ lit ''_'' @
      str_int (trunc_seconds (time_name granting)) = lit ''patreon_gate_42_1700000001''"
    by (simp add: run_simps)
  show ?thesis
    using invite_request_is_constrained
      [of "invite_request_for settings granting ann (- 1001)" settings granting
        "dm (lit '' name@example.com '')" fresh Map.empty defaults]
      first_run_request load_defaults
    by (simp add: expiry link_name)
qed

section \<open>The header row\<close>

text \<open>The header is written exactly when the first row is empty.\<close>

lemma get_ws_writes_header_iff:
  "AppendRow HEADER RAW \<in> set (drop (length (effects w)) (effects (get_ws w))) \<longleftrightarrow>
   row_values (sheet w) 1 = []"
  by (simp add: get_ws_eq)

lemma HEADER_not_blank: "\<not> blank_row HEADER"
  by (simp add: blank_row_def HEADER_def lit_def)

lemma first_row_HEADER: "row_values (HEADER # ws) 1 \<noteq> []"
  by (simp add: row_values_def trim_trailing_def HEADER_def lit_def)

text \<open>On a sheet whose first row holds something, \<open>get_ws\<close> leaves the sheet alone, however
  often it is called.\<close>

lemma get_ws_keeps_sheet_with_first_row:
  "row_values (sheet w) 1 \<noteq> [] \<Longrightarrow> sheet (get_ws (get_ws w)) = sheet w"
  by (simp add: get_ws_eq)

text \<open>On a sheet without any data the first call writes the header into row 1 and the
  second call finds it there.\<close>

lemma get_ws_on_blank_sheet:
  assumes "list_all blank_row (sheet w)"
  shows "sheet (get_ws w) = [HEADER] \<and> sheet (get_ws (get_ws w)) = [HEADER]"
proof -
  have first: "row_values (sheet w) 1 = []"
  proof (cases "sheet w")
    case Nil
    then show ?thesis by (simp add: row_values_def)
  next
    case (Cons r rs)
    with assms have "blank_row r" by simp
    then have "trim_trailing (\<lambda>x. x = []) r = []"
      by (simp add: blank_row_def trim_trailing_all)
    with Cons show ?thesis by (simp add: row_values_def)
  qed
  have "append_row (sheet w) HEADER = [HEADER]"
    using assms by (simp add: append_row_def trim_trailing_all)
  with first have one: "sheet (get_ws w) = [HEADER]"
    by (simp add: get_ws_eq)
  then have "row_values (sheet (get_ws w)) 1 \<noteq> []"
    using first_row_HEADER [of "[]"] by simp
  then have "sheet (get_ws (get_ws w)) = sheet (get_ws w)"
    by (rule sheet_get_ws_nonempty)
  with one show ?thesis by simp
qed

text \<open>On a sheet with an empty first row above data the header lands below the data, the
  first row stays empty, and the next call writes the header again.\<close>

lemma get_ws_above_data:
  assumes "row_values (sheet w) 1 = []" and "\<not> list_all blank_row (sheet w)"
  shows "sheet (get_ws w) = trim_trailing blank_row (sheet w) @ [HEADER] \<and>
         sheet (get_ws (get_ws w)) = trim_trailing blank_row (sheet w) @ [HEADER, HEADER]"
proof -
  let ?t = "trim_trailing blank_row (sheet w)"
  have one: "sheet (get_ws w) = ?t @ [HEADER]"
    using assms(1) by (simp add: get_ws_eq append_row_def)
  have t: "?t \<noteq> []"
    using assms(2) by (simp add: trim_trailing_Nil_iff)
  obtain rest where ws: "sheet w = ?t @ rest"
    using trim_trailing_decomp [of "sheet w" blank_row] by blast
  from t obtain r rs where rrs: "?t = r # rs"
    by (cases ?t) auto
  have "sheet w = r # rs @ rest"
    using ws rrs by simp
  then have "row_values (sheet w) 1 = trim_trailing (\<lambda>x. x = []) r"
    by (simp add: row_values_def)
  with assms(1) have "row_values (?t @ [HEADER]) 1 = []"
    by (simp add: rrs row_values_def)
  moreover have "trim_trailing blank_row (?t @ [HEADER]) = ?t @ [HEADER]"
    by (rule trim_trailing_last) (simp_all add: HEADER_not_blank)
  ultimately have "sheet (get_ws (get_ws w)) = ?t @ [HEADER, HEADER]"
    using one by (simp add: get_ws_eq [of "get_ws w"] append_row_def)
  with one show ?thesis by simp
qed

text \<open>
  C7. The header is written only when the first row is empty, and on a sheet that holds
  no data or whose first row holds something a second call writes nothing (the three
  lemmas above). On a sheet with an empty first row above data, though, two calls write
  two header rows.
\<close>

theorem header_written_twice_above_data:
  "row_values (sheet note_above) 1 = [] \<and>
   sheet (get_ws note_above) = [[], [lit ''members''], HEADER] \<and>
   sheet (get_ws (get_ws note_above)) = [[], [lit ''members''], HEADER, HEADER]"
proof -
  have first: "row_values (sheet note_above) 1 = []"
    by (simp add: note_above_def row_values_def trim_trailing_def)
  have data: "\<not> list_all blank_row (sheet note_above)"
    by (simp add: note_above_def blank_row_def lit_def)
  have kept: "trim_trailing blank_row (sheet note_above) = [[], [lit ''members'']]"
    by (simp add: note_above_def trim_trailing_def blank_row_def lit_def)
  show ?thesis
    using get_ws_above_data [OF first data] first by (simp add: kept)
qed

section \<open>Startup\<close>

lemma main_runs_iff:
  "main g = Inr () \<longleftrightarrow> BOT_TOKEN g \<noteq> [] \<and> GROUP_CHAT_ID g \<noteq> [] \<and> SHEET_ID g \<noteq> []"
  by (simp add: main_def must_env_def)

text \<open>
  C8. When the bot token, the group chat id or the sheet id is empty, \<open>main\<close> raises
  \<open>RuntimeError\<close> with the message \<open>Missing env var:\<close> and the name of the first empty one,
  in the order \<open>BOT_TOKEN\<close>, \<open>GROUP_CHAT_ID\<close>, \<open>SHEET_ID\<close>, and does not reach the polling
  loop. A variable that the environment does not set is read as the empty string.
\<close>

theorem missing_required_setting_stops_startup:
  "(BOT_TOKEN g = [] \<or> GROUP_CHAT_ID g = [] \<or> SHEET_ID g = [] \<longrightarrow>
      main g = Inl (RuntimeError (lit ''Missing env var: '' @
                 (if BOT_TOKEN g = [] then lit ''BOT_TOKEN''
                  else if GROUP_CHAT_ID g = [] then lit ''GROUP_CHAT_ID''
                  else lit ''SHEET_ID''))) \<and>
      main g \<noteq> Inr ()) \<and>
   (load_globals e = Inr g' \<longrightarrow>
      (e (lit ''BOT_TOKEN'') = None \<longrightarrow> BOT_TOKEN g' = []) \<and>
      (e (lit ''GROUP_CHAT_ID'') = None \<longrightarrow> GROUP_CHAT_ID g' = []) \<and>
      (e (lit ''SHEET_ID'') = None \<longrightarrow> SHEET_ID g' = []))"
proof (intro conjI impI)
  assume "BOT_TOKEN g = [] \<or> GROUP_CHAT_ID g = [] \<or> SHEET_ID g = []"
  then show "main g = Inl (RuntimeError (lit ''Missing env var: '' @
                 (if BOT_TOKEN g = [] then lit ''BOT_TOKEN''
                  else if GROUP_CHAT_ID g = [] then lit ''GROUP_CHAT_ID''
                  else lit ''SHEET_ID'')))"
    by (auto simp add: main_def must_env_def)
  then show "main g \<noteq> Inr ()"
    by simp
next
  assume g': "load_globals e = Inr g'"
  {
    assume "e (lit ''BOT_TOKEN'') = None"
    with g' show "BOT_TOKEN g' = []"
      by (auto simp add: load_globals_def getenv_def strip_def split: sum.splits)
  }
  {
    assume "e (lit ''GROUP_CHAT_ID'') = None"
    with g' show "GROUP_CHAT_ID g' = []"
      by (auto simp add: load_globals_def getenv_def strip_def split: sum.splits)
  }
  {
    assume "e (lit ''SHEET_ID'') = None"
    with g' show "SHEET_ID g' = []"
      by (auto simp add: load_globals_def getenv_def strip_def split: sum.splits)
  }
qed

theorem missing_required_setting_stops_startup_witness:
  "(BOT_TOKEN defaults = [] \<or> GROUP_CHAT_ID defaults = [] \<or> SHEET_ID defaults = []) \<and>
   main defaults = Inl (RuntimeError (lit ''Missing env var: '' @ lit ''BOT_TOKEN'')) \<and>
   main defaults \<noteq> Inr () \<and>
   load_globals Map.empty = Inr defaults \<and>
   Map.empty (lit ''BOT_TOKEN'') = None \<and>
   BOT_TOKEN defaults = []"
proof -
  have empty: "BOT_TOKEN defaults = []"
    by (simp add: defaults_def)
  show ?thesis
    using missing_required_setting_stops_startup [of defaults Map.empty defaults]
      empty load_defaults
    by simp
qed

end
